theory Spec2Isabelle
  imports Main "HOL-Library.Word" "HOL-Library.Sublist"
begin

section \<open>Tablespace commands (src/backend/commands/tablespace.c)\<close>

text \<open>
  The embedding follows tablespace.c function by function. The C file talks to three
  kinds of collaborators, and each is made explicit:
  \<^item> the file system (chmod, stat, lstat, mkdir, rmdir, unlink, symlink, opendir and
    readdir): a table from physical paths to file types, with the kernel's path walk;
  \<^item> the catalog pg_tablespace: the list of its rows in heap order;
  \<^item> every other backend service (privilege checks, GUC variables, WAL insertion,
    checkpoints, dispatch to the segments): fields of an environment record, or an
    entry appended to the list of calls made.
  \<open>ereport(ERROR, ...)\<close> leaves the function at once: it is the \<open>Inl\<close> branch of every
  result. The build is one with HAVE_SYMLINK defined.
\<close>

subsection \<open>Paths\<close>

text \<open>A C string holding a path is cut at every slash.\<close>

fun split_path :: "string \<Rightarrow> string list" where
  "split_path [] = [[]]"
| "split_path (c # cs) =
     (if c = CHR ''/'' then [] # split_path cs
      else (case split_path cs of [] \<Rightarrow> [[c]] | x # xs \<Rightarrow> (c # x) # xs))"

text \<open>Empty components (doubled or trailing slashes) and \<open>.\<close> name no step of a walk.\<close>

definition path_components :: "string \<Rightarrow> string list" where
  "path_components s = filter (\<lambda>c. c \<noteq> [] \<and> c \<noteq> ''.'') (split_path s)"

text \<open>port.h, outside Windows: a path is absolute when it starts with a slash.\<close>

definition is_absolute_path :: "string \<Rightarrow> bool" where
  "is_absolute_path s = (case s of [] \<Rightarrow> False | c # _ \<Rightarrow> c = CHR ''/'')"

text \<open>\<open>%u\<close> of psprintf: the decimal digits of an unsigned number.\<close>

definition digit_char :: "nat \<Rightarrow> char" where
  "digit_char d = ''0123456789'' ! d"

fun decimal :: "nat \<Rightarrow> string" where
  "decimal n = (if n < 10 then [digit_char n] else decimal (n div 10) @ [digit_char (n mod 10)])"

declare decimal.simps [simp del]

text \<open>A name between double quotes, as the messages show it.\<close>

definition quoted :: "string \<Rightarrow> string" where
  "quoted s = CHR 0x22 # s @ [CHR 0x22]"

subsection \<open>The file system\<close>

datatype errno = ENOENT | EEXIST | ENOTDIR | ENOTEMPTY | EISDIR | ELOOP | EINVAL

datatype ftype = S_IFDIR | S_IFREG | S_IFLNK string

text \<open>
  A file system is the table of its files: the physical path of each (the names from the
  root down, no symbolic link among them) and its type. The root itself is not listed
  and is a directory. The table has no owners and no permission bits.
\<close>

type_synonym filesystem = "(string list \<times> ftype) list"

definition fs_lookup :: "filesystem \<Rightarrow> string list \<Rightarrow> ftype option" where
  "fs_lookup fs p = (if p = [] then Some S_IFDIR else map_of fs p)"

definition fs_children :: "filesystem \<Rightarrow> string list \<Rightarrow> string list" where
  "fs_children fs p = map (\<lambda>(k, t). last k) (filter (\<lambda>(k, t). k \<noteq> [] \<and> butlast k = p) fs)"

definition fs_remove :: "filesystem \<Rightarrow> string list \<Rightarrow> filesystem" where
  "fs_remove fs p = filter (\<lambda>(k, t). k \<noteq> p) fs"

definition fs_remove_below :: "filesystem \<Rightarrow> string list \<Rightarrow> filesystem" where
  "fs_remove_below fs p = filter (\<lambda>(k, t). \<not> strict_prefix p k) fs"

text \<open>
  Every listed file lies in a listed directory: the shape of every table that mkdir,
  symlink, rmdir and unlink build from the empty one.
\<close>

definition fs_wf :: "filesystem \<Rightarrow> bool" where
  "fs_wf fs = list_all (\<lambda>(k, t). k \<noteq> [] \<and> fs_lookup fs (butlast k) = Some S_IFDIR) fs"

text \<open>
  The kernel's walk along the components of a path, from the directory \<open>cur\<close>: every
  symbolic link met is followed, at most \<open>n\<close> of them (then ELOOP); \<open>..\<close> steps to the
  parent. The result is the physical path reached.
\<close>

fun walk :: "nat \<Rightarrow> filesystem \<Rightarrow> string list \<Rightarrow> string list \<Rightarrow> errno + string list" where
  "walk n fs cur [] = Inr cur"
| "walk n fs cur (c # cs) =
     (case fs_lookup fs cur of
        None \<Rightarrow> Inl ENOENT
      | Some S_IFREG \<Rightarrow> Inl ENOTDIR
      | Some (S_IFLNK t) \<Rightarrow> Inl ENOTDIR
      | Some S_IFDIR \<Rightarrow>
          if c = ''..'' then walk n fs (butlast cur) cs
          else (case fs_lookup fs (cur @ [c]) of
                  None \<Rightarrow> Inl ENOENT
                | Some (S_IFLNK t) \<Rightarrow>
                    (case n of
                       0 \<Rightarrow> Inl ELOOP
                     | Suc m \<Rightarrow> walk m fs (if is_absolute_path t then [] else cur)
                                  (path_components t @ cs))
                | Some S_IFDIR \<Rightarrow> walk n fs (cur @ [c]) cs
                | Some S_IFREG \<Rightarrow> walk n fs (cur @ [c]) cs))"

text \<open>Linux follows at most 40 symbolic links in one lookup.\<close>

definition MAXSYMLINKS :: nat where
  "MAXSYMLINKS = 40"

text \<open>
  The state of the file system as a process sees it: the table and the working
  directory of the backend (the data directory), from which relative paths start.
\<close>

record fsys =
  files :: filesystem
  cwd :: "string list"

definition walk_from :: "fsys \<Rightarrow> string \<Rightarrow> string list" where
  "walk_from f path = (if is_absolute_path path then [] else cwd f)"

text \<open>Lookup that follows a link in the last place too (stat, chmod, opendir).\<close>

definition namei :: "fsys \<Rightarrow> string \<Rightarrow> errno + string list" where
  "namei f path =
     (if path = [] then Inl ENOENT
      else case walk MAXSYMLINKS (files f) (walk_from f path) (path_components path) of
             Inl e \<Rightarrow> Inl e
           | Inr p \<Rightarrow> (case fs_lookup (files f) p of None \<Rightarrow> Inl ENOENT | Some t \<Rightarrow> Inr p))"

text \<open>
  Lookup of the directory that holds the last name, which is not followed (lstat,
  mkdir, rmdir, unlink, symlink). A path without a last name of its own (the root,
  the working directory, one that ends in \<open>..\<close>) gives EINVAL here.
\<close>

definition namei_parent :: "fsys \<Rightarrow> string \<Rightarrow> errno + string list" where
  "namei_parent f path =
     (if path = [] then Inl ENOENT
      else let cs = path_components path in
        if cs = [] \<or> last cs = ''..'' then Inl EINVAL
        else case walk MAXSYMLINKS (files f) (walk_from f path) (butlast cs) of
               Inl e \<Rightarrow> Inl e
             | Inr q \<Rightarrow> (case fs_lookup (files f) q of
                           None \<Rightarrow> Inl ENOENT
                         | Some S_IFDIR \<Rightarrow> Inr (q @ [last cs])
                         | Some S_IFREG \<Rightarrow> Inl ENOTDIR
                         | Some (S_IFLNK t) \<Rightarrow> Inl ENOTDIR))"

definition sys_stat :: "fsys \<Rightarrow> string \<Rightarrow> errno + ftype" where
  "sys_stat f path =
     (case namei f path of
        Inl e \<Rightarrow> Inl e
      | Inr p \<Rightarrow> (case fs_lookup (files f) p of None \<Rightarrow> Inl ENOENT | Some t \<Rightarrow> Inr t))"

definition sys_lstat :: "fsys \<Rightarrow> string \<Rightarrow> errno + ftype" where
  "sys_lstat f path =
     (case namei_parent f path of
        Inl e \<Rightarrow> (if e = EINVAL then sys_stat f path else Inl e)
      | Inr p \<Rightarrow> (case fs_lookup (files f) p of None \<Rightarrow> Inl ENOENT | Some t \<Rightarrow> Inr t))"

definition sys_chmod :: "fsys \<Rightarrow> string \<Rightarrow> errno + fsys" where
  "sys_chmod f path = (case namei f path of Inl e \<Rightarrow> Inl e | Inr p \<Rightarrow> Inr f)"

definition sys_mkdir :: "fsys \<Rightarrow> string \<Rightarrow> errno + fsys" where
  "sys_mkdir f path =
     (case namei_parent f path of
        Inl e \<Rightarrow> Inl (if e = EINVAL then EEXIST else e)
      | Inr p \<Rightarrow> (case fs_lookup (files f) p of
                    Some t \<Rightarrow> Inl EEXIST
                  | None \<Rightarrow> Inr (f\<lparr>files := files f @ [(p, S_IFDIR)]\<rparr>)))"

definition sys_symlink :: "fsys \<Rightarrow> string \<Rightarrow> string \<Rightarrow> errno + fsys" where
  "sys_symlink f target path =
     (case namei_parent f path of
        Inl e \<Rightarrow> Inl (if e = EINVAL then EEXIST else e)
      | Inr p \<Rightarrow> (case fs_lookup (files f) p of
                    Some t \<Rightarrow> Inl EEXIST
                  | None \<Rightarrow> Inr (f\<lparr>files := files f @ [(p, S_IFLNK target)]\<rparr>)))"

definition sys_rmdir :: "fsys \<Rightarrow> string \<Rightarrow> errno + fsys" where
  "sys_rmdir f path =
     (case namei_parent f path of
        Inl e \<Rightarrow> Inl e
      | Inr p \<Rightarrow> (case fs_lookup (files f) p of
                    None \<Rightarrow> Inl ENOENT
                  | Some S_IFREG \<Rightarrow> Inl ENOTDIR
                  | Some (S_IFLNK t) \<Rightarrow> Inl ENOTDIR
                  | Some S_IFDIR \<Rightarrow>
                      if fs_children (files f) p \<noteq> [] then Inl ENOTEMPTY
                      else Inr (f\<lparr>files := fs_remove (files f) p\<rparr>)))"

definition sys_unlink :: "fsys \<Rightarrow> string \<Rightarrow> errno + fsys" where
  "sys_unlink f path =
     (case namei_parent f path of
        Inl e \<Rightarrow> Inl (if e = EINVAL then EISDIR else e)
      | Inr p \<Rightarrow> (case fs_lookup (files f) p of
                    None \<Rightarrow> Inl ENOENT
                  | Some S_IFDIR \<Rightarrow> Inl EISDIR
                  | Some S_IFREG \<Rightarrow> Inr (f\<lparr>files := fs_remove (files f) p\<rparr>)
                  | Some (S_IFLNK t) \<Rightarrow> Inr (f\<lparr>files := fs_remove (files f) p\<rparr>)))"

text \<open>
  opendir with the readdir that follows: the names in the directory, \<open>.\<close> and \<open>..\<close>
  first, as they stand when the directory is opened.
\<close>

definition sys_opendir :: "fsys \<Rightarrow> string \<Rightarrow> errno + string list" where
  "sys_opendir f path =
     (case namei f path of
        Inl e \<Rightarrow> Inl e
      | Inr p \<Rightarrow> (case fs_lookup (files f) p of
                    Some S_IFDIR \<Rightarrow> Inr (''.'' # ''..'' # fs_children (files f) p)
                  | _ \<Rightarrow> Inl ENOTDIR))"

text \<open>
  Modelled from the spec: rmtree of src/common, which is not among the files under
  src/. It forcibly removes a directory and all it holds; it reports failure (and has
  removed what it could) when the directory cannot be opened or cannot be removed.
\<close>

definition rmtree :: "fsys \<Rightarrow> string \<Rightarrow> bool \<Rightarrow> bool \<times> fsys" where
  "rmtree f path rmtopdir =
     (case sys_opendir f path of
        Inl e \<Rightarrow> (False, f)
      | Inr names \<Rightarrow>
          (case namei f path of
             Inl e \<Rightarrow> (False, f)
           | Inr p \<Rightarrow>
               let f1 = f\<lparr>files := fs_remove_below (files f) p\<rparr> in
               if rmtopdir
               then (case sys_rmdir f1 path of Inl e \<Rightarrow> (False, f1) | Inr f2 \<Rightarrow> (True, f2))
               else (True, f1)))"

subsection \<open>Backend state and collaborators\<close>

type_synonym Oid = "32 word"

definition InvalidOid :: Oid where
  "InvalidOid = 0"

definition OidIsValid :: "Oid \<Rightarrow> bool" where
  "OidIsValid objectId = (objectId \<noteq> InvalidOid)"

datatype elevel = LOG | NOTICE | WARNING | ERROR | PANIC

datatype errcode =
    ERRCODE_INSUFFICIENT_PRIVILEGE
  | ERRCODE_SYNTAX_ERROR
  | ERRCODE_INVALID_NAME
  | ERRCODE_INVALID_OBJECT_DEFINITION
  | ERRCODE_RESERVED_NAME
  | ERRCODE_DUPLICATE_OBJECT
  | ERRCODE_UNDEFINED_OBJECT
  | ERRCODE_UNDEFINED_FILE
  | ERRCODE_OBJECT_IN_USE
  | ERRCODE_OBJECT_NOT_IN_PREREQUISITE_STATE
  | ERRCODE_WRONG_OBJECT_TYPE
  | ERRCODE_T_R_SERIALIZATION_FAILURE
  | ERRCODE_INTERNAL_ERROR
  | ERRCODE_SUCCESSFUL_COMPLETION
  | ERRCODE_WARNING
  | errcode_for_file_access errno

text \<open>
  One report of ereport or elog: its level, its SQLSTATE and the message, with the
  arguments of the format filled in (\<open>%m\<close> stays: the errno is in the code). A
  report that names no SQLSTATE has the default of its level: internal error from
  ERROR up, warning for WARNING, successful completion below. Hints and details are
  left out.
\<close>

type_synonym ereport = "elevel \<times> errcode \<times> string"

text \<open>
  The fields of the two statements carry the name of their struct in front, so that
  the names of the C locals (\<open>location\<close>, \<open>tablespacename\<close>, \<open>missing_ok\<close>) stay free.
\<close>

record CreateTableSpaceStmt =
  create_tablespacename :: string
  create_owner :: "string option"
  create_location :: string
  create_options :: "(string \<times> string) list"

record DropTableSpaceStmt =
  drop_tablespacename :: string
  drop_missing_ok :: bool

datatype Node = T_CreateTableSpaceStmt CreateTableSpaceStmt | T_DropTableSpaceStmt DropTableSpaceStmt

datatype dispatch_flag = DF_CANCEL_ON_ERROR | DF_WITH_SNAPSHOT | DF_NEED_TWO_PHASE

datatype checkpoint_flag = CHECKPOINT_IMMEDIATE | CHECKPOINT_FORCE | CHECKPOINT_WAIT

datatype dispatch_oids = NIL | AssignedOidsForDispatch

text \<open>
  The records of the tablespace resource manager, as XLogInsert takes them and as
  tblspc_redo reads them: the info byte is decoded into the constructor, an info byte
  that is neither of the two into \<open>XLOG_TBLSPC_OTHER\<close>.
\<close>

datatype xl_tblspc_rec =
    XLOG_TBLSPC_CREATE Oid string
  | XLOG_TBLSPC_DROP Oid
  | XLOG_TBLSPC_OTHER nat

text \<open>The calls into other modules that leave a trace, in the order they are made.\<close>

datatype call =
    Call_XLogInsert xl_tblspc_rec
  | Call_ForceSyncCommit
  | Call_RequestCheckpoint "checkpoint_flag set"
  | Call_CdbDispatchUtilityStatement Node "dispatch_flag set" dispatch_oids
  | Call_LWLockAcquire_TablespaceCreateLock
  | Call_LWLockRelease_TablespaceCreateLock
  | Call_ResolveRecoveryConflictWithTablespace Oid
  | Call_heap_lock_tuple Oid
  | Call_recordDependencyOnOwner Oid Oid
  | Call_InvokeObjectPostCreateHook Oid
  | Call_InvokeObjectDropHook Oid
  | Call_InvokeObjectPostAlterHook Oid
  | Call_DeleteSharedComments Oid
  | Call_DeleteSharedSecurityLabel Oid
  | Call_deleteSharedDependencyRecordsFor Oid
  | Call_MetaTrackAddObject Oid
  | Call_MetaTrackDropObject Oid
  | Call_MetaTrackUpdObject Oid

record Form_pg_tablespace =
  spcname :: string
  spcowner :: Oid
  spcoptions :: "string list option"

text \<open>
  What a backend can change: the file system, the rows of pg_tablespace (each with its
  OID, in heap order), the messages reported below ERROR, the calls made, and the
  temporary tablespaces fd.c holds (\<open>None\<close>: not set in this transaction).
\<close>

record world =
  disk :: fsys
  pg_tablespace :: "(Oid \<times> Form_pg_tablespace) list"
  elog :: "ereport list"
  calls :: "call list"
  tempTableSpaces :: "Oid list option"
  nextTempTableSpace :: nat

datatype GpRoleValue = GP_ROLE_UTILITY | GP_ROLE_DISPATCH | GP_ROLE_EXECUTE

datatype AclResult = ACLCHECK_OK | ACLCHECK_NO_PRIV | ACLCHECK_NOT_OWNER

datatype HTSU_Result =
    HeapTupleMayBeUpdated
  | HeapTupleInvisible
  | HeapTupleSelfUpdated
  | HeapTupleUpdated
  | HeapTupleBeingUpdated

text \<open>
  Everything tablespace.c reads from outside itself and that no file under src/
  defines: the session (user, role of the process in the cluster, GUC variables), the
  constants of headers, and the functions of other modules it calls for a value.
\<close>

record env =
  superuser :: bool
  GetUserId :: Oid
  get_role_oid :: "string \<Rightarrow> Oid option"
  Gp_role :: GpRoleValue
  segindex :: int
  getgpsegmentCount :: int
  allowSystemTableMods :: bool
  InRecovery :: bool
  IsTransactionState :: bool
  default_tablespace :: "string option"
  temp_tablespaces :: string
  MyDatabaseTableSpace :: Oid
  GLOBALTABLESPACE_OID :: Oid
  DEFAULTTABLESPACE_OID :: Oid
  MAXPGPATH :: nat
  OIDCHARS :: nat
  FORKNAMECHARS :: nat
  tablespace_version_directory :: string
  IsReservedName :: "string \<Rightarrow> bool"
  GetReservedPrefix :: "string \<Rightarrow> string"
  canonicalize_path :: "string \<Rightarrow> string"
  get_parent_directory :: "string \<Rightarrow> string"
  GetDatabasePath :: "Oid \<Rightarrow> Oid \<Rightarrow> string"
  pg_atoi :: "string \<Rightarrow> ereport + int"
  SplitIdentifierString :: "string \<Rightarrow> string list option"
  transformRelOptions :: "(string \<times> string) list \<Rightarrow> ereport + string list option"
  tablespace_reloptions :: "string list option \<Rightarrow> ereport option"
  GetNewOid :: "(Oid \<times> Form_pg_tablespace) list \<Rightarrow> Oid"
  pg_tablespace_ownercheck :: "Oid \<Rightarrow> Oid \<Rightarrow> bool"
  pg_tablespace_aclcheck :: "Oid \<Rightarrow> Oid \<Rightarrow> AclResult"
  heap_lock_tuple :: "Oid \<Rightarrow> HTSU_Result"
  checkpoint_files :: "fsys \<Rightarrow> fsys"
  recovery_conflict_files :: "Oid \<Rightarrow> fsys \<Rightarrow> fsys"
  random :: nat

type_synonym 'a result = "(ereport \<times> world) + ('a \<times> world)"

definition ereport :: "elevel \<Rightarrow> errcode \<Rightarrow> string \<Rightarrow> world \<Rightarrow> world" where
  "ereport lvl code msg w = w\<lparr>elog := elog w @ [(lvl, code, msg)]\<rparr>"

definition called :: "call \<Rightarrow> world \<Rightarrow> world" where
  "called c w = w\<lparr>calls := calls w @ [c]\<rparr>"

text \<open>
  A checkpoint unlinks the files whose deletion was put off until it; resolving a
  recovery conflict ends the standby backends that hold temporary files in the
  tablespace. What either leaves on the file system is the environment's to say.
\<close>

definition RequestCheckpoint :: "env \<Rightarrow> checkpoint_flag set \<Rightarrow> world \<Rightarrow> world" where
  "RequestCheckpoint env flags w =
     called (Call_RequestCheckpoint flags) (w\<lparr>disk := checkpoint_files env (disk w)\<rparr>)"

definition ResolveRecoveryConflictWithTablespace :: "env \<Rightarrow> Oid \<Rightarrow> world \<Rightarrow> world" where
  "ResolveRecoveryConflictWithTablespace env tsid w =
     called (Call_ResolveRecoveryConflictWithTablespace tsid)
       (w\<lparr>disk := recovery_conflict_files env tsid (disk w)\<rparr>)"

text \<open>
  Modelled from the spec: aclcheck_error of aclchk.c, which is not under src/. For a
  result other than ACLCHECK_OK it raises the permission error of the tablespace: not
  privileged, or not owner.
\<close>

definition aclcheck_error :: "AclResult \<Rightarrow> string \<Rightarrow> ereport" where
  "aclcheck_error aclerr objectname =
     (case aclerr of
        ACLCHECK_OK \<Rightarrow> (ERROR, ERRCODE_SUCCESSFUL_COMPLETION, [])
      | ACLCHECK_NO_PRIV \<Rightarrow>
          (ERROR, ERRCODE_INSUFFICIENT_PRIVILEGE, ''permission denied for tablespace '' @ objectname)
      | ACLCHECK_NOT_OWNER \<Rightarrow>
          (ERROR, ERRCODE_INSUFFICIENT_PRIVILEGE, ''must be owner of tablespace '' @ objectname))"

text \<open>
  Modelled from the spec: transaction abort (xact.c, not under src/). A statement that
  ends in ERROR leaves the catalog as it was when the statement began; what it did to
  the file system stays, and so does what it reported.
\<close>

definition AbortTransaction :: "world \<Rightarrow> world \<Rightarrow> world" where
  "AbortTransaction w0 w = w\<lparr>pg_tablespace := pg_tablespace w0\<rparr>"

definition in_transaction :: "(world \<Rightarrow> 'a result) \<Rightarrow> world \<Rightarrow> 'a result" where
  "in_transaction command w =
     (case command w of
        Inl (err, w') \<Rightarrow> Inl (err, AbortTransaction w w')
      | Inr r \<Rightarrow> Inr r)"

text \<open>The heap scan of pg_tablespace under the key \<open>spcname = name\<close>: the first row found.\<close>

definition scan_spcname :: "(Oid \<times> Form_pg_tablespace) list \<Rightarrow> string \<Rightarrow> (Oid \<times> Form_pg_tablespace) option" where
  "scan_spcname rel name = find (\<lambda>(oid, form). spcname form = name) rel"

subsection \<open>TablespaceCreateDbspace\<close>

definition could_not_create_directory :: "string \<Rightarrow> errno \<Rightarrow> ereport" where
  "could_not_create_directory dir e =
     (ERROR, errcode_for_file_access e, ''could not create directory '' @ quoted dir @ '': %m'')"

text \<open>
  The two Asserts on the OIDs are compiled out of a production build and are not part
  of the model. The parent directory is made twice, as the source has it.
\<close>

definition TablespaceCreateDbspace :: "env \<Rightarrow> Oid \<Rightarrow> Oid \<Rightarrow> bool \<Rightarrow> world \<Rightarrow> unit result" where
  "TablespaceCreateDbspace env spcNode dbNode isRedo w =
     (if spcNode = GLOBALTABLESPACE_OID env then Inr ((), w)
      else
        let dir = GetDatabasePath env dbNode spcNode in
        case sys_stat (disk w) dir of
          Inr S_IFDIR \<Rightarrow> Inr ((), w)
        | Inr S_IFREG \<Rightarrow>
            Inl ((ERROR, ERRCODE_WRONG_OBJECT_TYPE, quoted dir @ '' exists but is not a directory''), w)
        | Inr (S_IFLNK t) \<Rightarrow>
            Inl ((ERROR, ERRCODE_WRONG_OBJECT_TYPE, quoted dir @ '' exists but is not a directory''), w)
        | Inl e \<Rightarrow>
            if e \<noteq> ENOENT
            then Inl ((ERROR, errcode_for_file_access e, ''could not stat directory '' @ quoted dir @ '': %m''), w)
            else
              let w1 = called Call_LWLockAcquire_TablespaceCreateLock w in
              if sys_stat (disk w1) dir = Inr S_IFDIR
              then Inr ((), called Call_LWLockRelease_TablespaceCreateLock w1)
              else
                (case sys_mkdir (disk w1) dir of
                   Inr f \<Rightarrow> Inr ((), called Call_LWLockRelease_TablespaceCreateLock (w1\<lparr>disk := f\<rparr>))
                 | Inl e1 \<Rightarrow>
                     if e1 \<noteq> ENOENT \<or> \<not> isRedo then Inl (could_not_create_directory dir e1, w1)
                     else
                       let parentdir = get_parent_directory env dir;
                           r2 = sys_mkdir (disk w1) parentdir in
                       (case (case r2 of Inr f \<Rightarrow> Inr f
                                | Inl e2 \<Rightarrow> if e2 \<noteq> EEXIST then Inl e2 else Inr (disk w1)) of
                          Inl e2 \<Rightarrow> Inl (could_not_create_directory parentdir e2, w1)
                        | Inr f2 \<Rightarrow>
                            (case (case sys_mkdir f2 parentdir of Inr f \<Rightarrow> Inr f
                                     | Inl e3 \<Rightarrow> if e3 \<noteq> EEXIST then Inl e3 else Inr f2) of
                               Inl e3 \<Rightarrow> Inl (could_not_create_directory parentdir e3, w1\<lparr>disk := f2\<rparr>)
                             | Inr f3 \<Rightarrow>
                                 (case sys_mkdir f3 dir of
                                    Inl e4 \<Rightarrow> Inl (could_not_create_directory dir e4, w1\<lparr>disk := f3\<rparr>)
                                  | Inr f4 \<Rightarrow>
                                      Inr ((), called Call_LWLockRelease_TablespaceCreateLock
                                                 (w1\<lparr>disk := f4\<rparr>)))))))"

subsection \<open>create_tablespace_directories\<close>

definition remove_old_symlink :: "string \<Rightarrow> world \<Rightarrow> unit result" where
  "remove_old_symlink linkloc w =
     (if sys_lstat (disk w) linkloc = Inr S_IFDIR
      then (case sys_rmdir (disk w) linkloc of
              Inl e \<Rightarrow> Inl ((ERROR, errcode_for_file_access e,
                             ''could not remove directory '' @ quoted linkloc @ '': %m''), w)
            | Inr f \<Rightarrow> Inr ((), w\<lparr>disk := f\<rparr>))
      else (case sys_unlink (disk w) linkloc of
              Inl e \<Rightarrow> if e \<noteq> ENOENT
                       then Inl ((ERROR, errcode_for_file_access e,
                                  ''could not remove symbolic link '' @ quoted linkloc @ '': %m''), w)
                       else Inr ((), w)
            | Inr f \<Rightarrow> Inr ((), w\<lparr>disk := f\<rparr>)))"

definition create_tablespace_directories :: "env \<Rightarrow> string \<Rightarrow> Oid \<Rightarrow> world \<Rightarrow> unit result" where
  "create_tablespace_directories env location tablespaceoid w =
     (let linkloc = ''pg_tblspc/'' @ decimal (unat tablespaceoid);
          location_with_version_dir = location @ ''/'' @ tablespace_version_directory env
      in
      case sys_chmod (disk w) location of
        Inl e \<Rightarrow>
          if e = ENOENT
          then Inl ((ERROR, ERRCODE_UNDEFINED_FILE, ''directory '' @ quoted location @ '' does not exist''), w)
          else Inl ((ERROR, errcode_for_file_access e,
                     ''could not set permissions on directory '' @ quoted location @ '': %m''), w)
      | Inr f0 \<Rightarrow>
          let w1 = w\<lparr>disk := f0\<rparr>;
              w2 = (if InRecovery env \<and> sys_stat (disk w1) location_with_version_dir = Inr S_IFDIR
                    then (case rmtree (disk w1) location_with_version_dir True of
                            (True, f) \<Rightarrow> w1\<lparr>disk := f\<rparr>
                          | (False, f) \<Rightarrow>
                              ereport WARNING ERRCODE_WARNING
                                (''some useless files may be left behind in old database directory '' @ quoted location_with_version_dir )
                                (w1\<lparr>disk := f\<rparr>))
                    else w1)
          in
          (case sys_mkdir (disk w2) location_with_version_dir of
            Inl e \<Rightarrow>
              if e = EEXIST
              then Inl ((ERROR, ERRCODE_OBJECT_IN_USE,
                         ''directory '' @ quoted location_with_version_dir @ '' already in use as a tablespace''), w2)
              else Inl (could_not_create_directory location_with_version_dir e, w2)
          | Inr f3 \<Rightarrow>
              (case (if InRecovery env then remove_old_symlink linkloc (w2\<lparr>disk := f3\<rparr>)
                     else Inr ((), w2\<lparr>disk := f3\<rparr>)) of
                 Inl err \<Rightarrow> Inl err
               | Inr (u, w4) \<Rightarrow>
                   (case sys_symlink (disk w4) location linkloc of
                      Inl e \<Rightarrow> Inl ((ERROR, errcode_for_file_access e,
                                     ''could not create symbolic link '' @ quoted linkloc @ '': %m''), w4)
                    | Inr f5 \<Rightarrow> Inr ((), w4\<lparr>disk := f5\<rparr>)))))"

subsection \<open>destroy_tablespace_directories\<close>

definition could_not_open_directory :: "elevel \<Rightarrow> string \<Rightarrow> errno \<Rightarrow> ereport" where
  "could_not_open_directory lvl dir e =
     (lvl, errcode_for_file_access e, ''could not open directory '' @ quoted dir @ '': %m'')"

definition could_not_remove_directory :: "elevel \<Rightarrow> string \<Rightarrow> errno \<Rightarrow> ereport" where
  "could_not_remove_directory lvl dir e =
     (lvl, errcode_for_file_access e, ''could not remove directory '' @ quoted dir @ '': %m'')"

text \<open>The loop of directory_is_empty over the entries read.\<close>

fun no_entry_but_dots :: "string list \<Rightarrow> bool" where
  "no_entry_but_dots [] = True"
| "no_entry_but_dots (d_name # rest) =
     (if d_name = ''.'' \<or> d_name = ''..'' then no_entry_but_dots rest else False)"

text \<open>AllocateDir gives NULL when opendir fails, and ReadDir on NULL raises the error.\<close>

definition directory_is_empty :: "fsys \<Rightarrow> string \<Rightarrow> ereport + bool" where
  "directory_is_empty f path =
     (case sys_opendir f path of
        Inl e \<Rightarrow> Inl (could_not_open_directory ERROR path e)
      | Inr names \<Rightarrow> Inr (no_entry_but_dots names))"

text \<open>
  The while loop of destroy_tablespace_directories over the entries of the version
  directory. \<open>Inr (False, w)\<close> is the early \<open>return false\<close>; \<open>Inr (True, w)\<close> leaves the
  loop at its end.
\<close>

fun destroy_database_directories :: "bool \<Rightarrow> string \<Rightarrow> string list \<Rightarrow> world \<Rightarrow> bool result" where
  "destroy_database_directories redo linkloc_with_version_dir [] w = Inr (True, w)"
| "destroy_database_directories redo linkloc_with_version_dir (d_name # rest) w =
     (if d_name = ''.'' \<or> d_name = ''..''
      then destroy_database_directories redo linkloc_with_version_dir rest w
      else
        let subfile = linkloc_with_version_dir @ ''/'' @ d_name in
        case (if redo then Inr True else directory_is_empty (disk w) subfile) of
          Inl err \<Rightarrow> Inl (err, w)
        | Inr False \<Rightarrow> Inr (False, w)
        | Inr True \<Rightarrow>
            (case sys_rmdir (disk w) subfile of
               Inl e \<Rightarrow>
                 if redo
                 then destroy_database_directories redo linkloc_with_version_dir rest
                        (ereport LOG (errcode_for_file_access e)
                           (''could not remove directory '' @ quoted subfile @ '': %m'') w)
                 else Inl (could_not_remove_directory ERROR subfile e, w)
             | Inr f \<Rightarrow>
                 destroy_database_directories redo linkloc_with_version_dir rest (w\<lparr>disk := f\<rparr>)))"

text \<open>The code from the label \<open>remove_symlink\<close> to the end of the function.\<close>

definition remove_symlink :: "env \<Rightarrow> bool \<Rightarrow> string \<Rightarrow> world \<Rightarrow> bool result" where
  "remove_symlink env redo linkloc_with_version_dir w =
     (let linkloc = get_parent_directory env linkloc_with_version_dir in
      if sys_lstat (disk w) linkloc = Inr S_IFDIR
      then (case sys_rmdir (disk w) linkloc of
              Inl e \<Rightarrow>
                if redo
                then Inr (True, ereport LOG (errcode_for_file_access e)
                                  (''could not remove directory '' @ quoted linkloc @ '': %m'') w)
                else Inl (could_not_remove_directory ERROR linkloc e, w)
            | Inr f \<Rightarrow> Inr (True, w\<lparr>disk := f\<rparr>))
      else (case sys_unlink (disk w) linkloc of
              Inl e \<Rightarrow>
                if redo \<or> e = ENOENT
                then Inr (True, ereport (if redo then LOG else WARNING) (errcode_for_file_access e)
                                  (''could not remove symbolic link '' @ quoted linkloc @ '': %m'') w)
                else Inl ((ERROR, errcode_for_file_access e,
                           ''could not remove symbolic link '' @ quoted linkloc @ '': %m''), w)
            | Inr f \<Rightarrow> Inr (True, w\<lparr>disk := f\<rparr>)))"

definition destroy_tablespace_directories :: "env \<Rightarrow> Oid \<Rightarrow> bool \<Rightarrow> world \<Rightarrow> bool result" where
  "destroy_tablespace_directories env tablespaceoid redo w =
     (let linkloc_with_version_dir =
            ''pg_tblspc/'' @ decimal (unat tablespaceoid) @ ''/'' @ tablespace_version_directory env
      in
      case sys_opendir (disk w) linkloc_with_version_dir of
        Inl e \<Rightarrow>
          if e = ENOENT
          then remove_symlink env redo linkloc_with_version_dir
                 (if \<not> redo
                  then ereport WARNING (errcode_for_file_access e)
                         (''could not open directory '' @ quoted linkloc_with_version_dir @ '': %m'') w
                  else w)
          else if redo
          then Inr (False, ereport LOG (errcode_for_file_access e)
                             (''could not open directory '' @ quoted linkloc_with_version_dir @ '': %m'') w)
          else Inl (could_not_open_directory ERROR linkloc_with_version_dir e, w)
      | Inr names \<Rightarrow>
          (case destroy_database_directories redo linkloc_with_version_dir names w of
             Inl err \<Rightarrow> Inl err
           | Inr (False, w1) \<Rightarrow> Inr (False, w1)
           | Inr (True, w1) \<Rightarrow>
               (case sys_rmdir (disk w1) linkloc_with_version_dir of
                  Inl e \<Rightarrow>
                    if redo
                    then Inr (False, ereport LOG (errcode_for_file_access e)
                                       (''could not remove directory '' @ quoted linkloc_with_version_dir @ '': %m'') w1)
                    else Inl (could_not_remove_directory ERROR linkloc_with_version_dir e, w1)
                | Inr f \<Rightarrow> remove_symlink env redo linkloc_with_version_dir (w1\<lparr>disk := f\<rparr>))))"

subsection \<open>get_tablespace_oid\<close>

definition tablespace_does_not_exist :: "string \<Rightarrow> ereport" where
  "tablespace_does_not_exist tablespacename =
     (ERROR, ERRCODE_UNDEFINED_OBJECT, ''tablespace '' @ quoted tablespacename @ '' does not exist'')"

definition could_not_serialize :: "string \<Rightarrow> ereport" where
  "could_not_serialize tablespacename =
     (ERROR, ERRCODE_T_R_SERIALIZATION_FAILURE,
      ''could not serialize access to tablespace '' @ tablespacename @ '' due to concurrent update'')"

text \<open>
  The result of heap_lock_tuple on the row found is the environment's: it depends on
  what other transactions do. The two \<open>Assert(false)\<close> cases fall through to the
  serialization failure, as they do in a production build.
\<close>

definition get_tablespace_oid :: "env \<Rightarrow> string \<Rightarrow> bool \<Rightarrow> world \<Rightarrow> Oid result" where
  "get_tablespace_oid env tablespacename missing_ok w =
     (let result = (case scan_spcname (pg_tablespace w) tablespacename of
                      Some (oid, form) \<Rightarrow> oid
                    | None \<Rightarrow> InvalidOid)
      in
      case (if OidIsValid result
            then (case heap_lock_tuple env result of
                    HeapTupleMayBeUpdated \<Rightarrow> Inr (called (Call_heap_lock_tuple result) w)
                  | HeapTupleSelfUpdated \<Rightarrow> Inl (could_not_serialize tablespacename, w)
                  | HeapTupleBeingUpdated \<Rightarrow> Inl (could_not_serialize tablespacename, w)
                  | HeapTupleUpdated \<Rightarrow> Inl (could_not_serialize tablespacename, w)
                  | HeapTupleInvisible \<Rightarrow>
                      Inl ((ERROR, ERRCODE_INTERNAL_ERROR, ''unrecognized heap_lock_tuple_status''), w))
            else Inr w) of
        Inl err \<Rightarrow> Inl err
      | Inr w1 \<Rightarrow>
          if \<not> OidIsValid result \<and> \<not> missing_ok
          then Inl (tablespace_does_not_exist tablespacename, w1)
          else Inr (result, w1))"

subsection \<open>CreateTableSpace\<close>

text \<open>\<open>%d\<close> of a signed number.\<close>

definition decimal_int :: "int \<Rightarrow> string" where
  "decimal_int i = (if i < 0 then CHR ''-'' # decimal (nat (- i)) else decimal (nat i))"

text \<open>
  The foreach over the segment-level options: \<open>Inr (Some path)\<close> is the \<open>break\<close> with
  the location of this segment, \<open>Inr None\<close> the end of the list without one.
\<close>

fun segment_location :: "env \<Rightarrow> (string \<times> string) list \<Rightarrow> ereport + string option" where
  "segment_location env [] = Inr None"
| "segment_location env ((defname, arg) # rest) =
     (if length defname > length ''content'' \<and> take (length ''content'') defname = ''content''
      then (case pg_atoi env (drop (length ''content'') defname) of
              Inl err \<Rightarrow> Inl err
            | Inr contentId \<Rightarrow>
                if Gp_role env = GP_ROLE_DISPATCH
                then (if contentId < 0 \<or> contentId \<ge> getgpsegmentCount env
                      then Inl (ERROR, ERRCODE_SYNTAX_ERROR,
                                ''segment content ID '' @ decimal_int contentId @ '' does not exist'')
                      else segment_location env rest)
                else if contentId = segindex env then Inr (Some arg)
                else segment_location env rest)
      else Inl (ERROR, ERRCODE_SYNTAX_ERROR, ''invalid segment specification''))"

definition location_cannot_contain_quotes :: ereport where
  "location_cannot_contain_quotes =
     (ERROR, ERRCODE_INVALID_NAME, ''tablespace location cannot contain single quotes'')"

definition location_must_be_absolute :: ereport where
  "location_must_be_absolute =
     (ERROR, ERRCODE_INVALID_OBJECT_DEFINITION, ''tablespace location must be an absolute path'')"

definition location_too_long :: "string \<Rightarrow> ereport" where
  "location_too_long location =
     (ERROR, ERRCODE_INVALID_OBJECT_DEFINITION,
      ''tablespace location '' @ quoted location @ '' is too long'')"

definition unacceptable_tablespace_name :: "string \<Rightarrow> ereport" where
  "unacceptable_tablespace_name tablespacename =
     (ERROR, ERRCODE_RESERVED_NAME, ''unacceptable tablespace name '' @ quoted tablespacename)"

definition tablespace_already_exists :: "string \<Rightarrow> ereport" where
  "tablespace_already_exists tablespacename =
     (ERROR, ERRCODE_DUPLICATE_OBJECT, ''tablespace '' @ quoted tablespacename @ '' already exists'')"

definition CreateTableSpace :: "env \<Rightarrow> CreateTableSpaceStmt \<Rightarrow> world \<Rightarrow> Oid result" where
  "CreateTableSpace env stmt w =
     (if \<not> superuser env
      then Inl ((ERROR, ERRCODE_INSUFFICIENT_PRIVILEGE,
                 ''permission denied to create tablespace '' @ quoted (create_tablespacename stmt)), w)
      else
        case (case create_owner stmt of
                Some rolename \<Rightarrow>
                  (case get_role_oid env rolename of
                     None \<Rightarrow> Inl (ERROR, ERRCODE_UNDEFINED_OBJECT,
                                  ''role '' @ quoted rolename @ '' does not exist'')
                   | Some roleid \<Rightarrow> Inr roleid)
              | None \<Rightarrow> Inr (GetUserId env)) of
          Inl err \<Rightarrow> Inl (err, w)
        | Inr ownerId \<Rightarrow>
            (case segment_location env (create_options stmt) of
               Inl err \<Rightarrow> Inl (err, w)
             | Inr segment \<Rightarrow>
                 let location = canonicalize_path env
                                  (case segment of Some path \<Rightarrow> path | None \<Rightarrow> create_location stmt)
                 in
                 if CHR 0x27 \<in> set location then Inl (location_cannot_contain_quotes, w)
                 else if \<not> is_absolute_path location then Inl (location_must_be_absolute, w)
                 else if length location + 1 + length (tablespace_version_directory env) + 1 +
                           OIDCHARS env + 1 + OIDCHARS env + 1 + FORKNAMECHARS env + 1 + OIDCHARS env
                         > MAXPGPATH env
                 then Inl (location_too_long location, w)
                 else if \<not> allowSystemTableMods env \<and> IsReservedName env (create_tablespacename stmt)
                 then Inl (unacceptable_tablespace_name (create_tablespacename stmt), w)
                 else
                   (case get_tablespace_oid env (create_tablespacename stmt) True w of
                      Inl err \<Rightarrow> Inl err
                    | Inr (existing, w1) \<Rightarrow>
                        if OidIsValid existing
                        then Inl (tablespace_already_exists (create_tablespacename stmt), w1)
                        else
                          (case transformRelOptions env (create_options stmt) of
                             Inl err \<Rightarrow> Inl (err, w1)
                           | Inr newOptions \<Rightarrow>
                               (case tablespace_reloptions env newOptions of
                                  Some err \<Rightarrow> Inl (err, w1)
                                | None \<Rightarrow>
                                    let tablespaceoid = GetNewOid env (pg_tablespace w1);
                                        tuple = (tablespaceoid,
                                                 \<lparr>spcname = create_tablespacename stmt,
                                                  spcowner = ownerId,
                                                  spcoptions = newOptions\<rparr>);
                                        w2 = w1\<lparr>pg_tablespace := pg_tablespace w1 @ [tuple]\<rparr>;
                                        w3 = called (Call_recordDependencyOnOwner tablespaceoid ownerId) w2;
                                        w4 = called (Call_InvokeObjectPostCreateHook tablespaceoid) w3
                                    in
                                    (case create_tablespace_directories env location tablespaceoid w4 of
                                       Inl err \<Rightarrow> Inl err
                                     | Inr (u, w5) \<Rightarrow>
                                         let w6 = called (Call_XLogInsert
                                                            (XLOG_TBLSPC_CREATE tablespaceoid location)) w5;
                                             w7 = called Call_ForceSyncCommit w6;
                                             w8 = (if Gp_role env = GP_ROLE_DISPATCH
                                                   then called (Call_MetaTrackAddObject tablespaceoid)
                                                          (called (Call_CdbDispatchUtilityStatement
                                                                     (T_CreateTableSpaceStmt stmt)
                                                                     {DF_CANCEL_ON_ERROR, DF_WITH_SNAPSHOT,
                                                                      DF_NEED_TWO_PHASE}
                                                                     AssignedOidsForDispatch) w7)
                                                   else w7)
                                         in Inr (tablespaceoid, w8)))))))"

subsection \<open>DropTableSpace\<close>

definition tablespace_is_not_empty :: "string \<Rightarrow> ereport" where
  "tablespace_is_not_empty tablespacename =
     (ERROR, ERRCODE_OBJECT_NOT_IN_PREREQUISITE_STATE,
      ''tablespace '' @ quoted tablespacename @ '' is not empty'')"

text \<open>
  The removal of the physical infrastructure: the first attempt and, when it reports
  that not all files are gone, the forced checkpoint and the second attempt.
\<close>

definition remove_physical_infrastructure :: "env \<Rightarrow> string \<Rightarrow> Oid \<Rightarrow> world \<Rightarrow> unit result" where
  "remove_physical_infrastructure env tablespacename tablespaceoid w =
     (case destroy_tablespace_directories env tablespaceoid False w of
        Inl err \<Rightarrow> Inl err
      | Inr (True, w1) \<Rightarrow> Inr ((), w1)
      | Inr (False, w1) \<Rightarrow>
          let w2 = RequestCheckpoint env {CHECKPOINT_IMMEDIATE, CHECKPOINT_FORCE, CHECKPOINT_WAIT} w1 in
          (case destroy_tablespace_directories env tablespaceoid False w2 of
             Inl err \<Rightarrow> Inl err
           | Inr (True, w3) \<Rightarrow> Inr ((), w3)
           | Inr (False, w3) \<Rightarrow> Inl (tablespace_is_not_empty tablespacename, w3)))"

text \<open>What DropTableSpace does to the catalog once the checks have passed, up to the lock.\<close>

definition remove_catalog_entries :: "env \<Rightarrow> Oid \<times> Form_pg_tablespace \<Rightarrow> world \<Rightarrow> world" where
  "remove_catalog_entries env tuple w =
     (let tablespaceoid = fst tuple;
          w1 = called (Call_InvokeObjectDropHook tablespaceoid) w;
          w2 = w1\<lparr>pg_tablespace := remove1 tuple (pg_tablespace w1)\<rparr>;
          w3 = called (Call_DeleteSharedComments tablespaceoid) w2;
          w4 = called (Call_DeleteSharedSecurityLabel tablespaceoid) w3;
          w5 = called (Call_deleteSharedDependencyRecordsFor tablespaceoid) w4;
          w6 = (if Gp_role env = GP_ROLE_DISPATCH
                then called (Call_MetaTrackDropObject tablespaceoid) w5 else w5)
      in called Call_LWLockAcquire_TablespaceCreateLock w6)"

definition DropTableSpace :: "env \<Rightarrow> DropTableSpaceStmt \<Rightarrow> world \<Rightarrow> unit result" where
  "DropTableSpace env stmt w =
     (let tablespacename = drop_tablespacename stmt in
      case scan_spcname (pg_tablespace w) tablespacename of
        None \<Rightarrow>
          if \<not> drop_missing_ok stmt
          then Inl (tablespace_does_not_exist tablespacename, w)
          else Inr ((), ereport NOTICE ERRCODE_SUCCESSFUL_COMPLETION
                          (''tablespace '' @ quoted tablespacename @ '' does not exist, skipping'') w)
      | Some tuple \<Rightarrow>
          let tablespaceoid = fst tuple in
          if \<not> pg_tablespace_ownercheck env tablespaceoid (GetUserId env)
          then Inl (aclcheck_error ACLCHECK_NOT_OWNER tablespacename, w)
          else if tablespaceoid = GLOBALTABLESPACE_OID env \<or> tablespaceoid = DEFAULTTABLESPACE_OID env
          then Inl (aclcheck_error ACLCHECK_NO_PRIV tablespacename, w)
          else
            (case remove_physical_infrastructure env tablespacename tablespaceoid
                    (remove_catalog_entries env tuple w) of
               Inl err \<Rightarrow> Inl err
             | Inr (u, w1) \<Rightarrow>
                 let w2 = called (Call_XLogInsert (XLOG_TBLSPC_DROP tablespaceoid)) w1;
                     w3 = called Call_ForceSyncCommit w2;
                     w4 = called Call_LWLockRelease_TablespaceCreateLock w3
                 in Inr ((), if Gp_role env = GP_ROLE_DISPATCH
                             then called (Call_CdbDispatchUtilityStatement
                                            (T_DropTableSpaceStmt stmt)
                                            {DF_CANCEL_ON_ERROR, DF_WITH_SNAPSHOT, DF_NEED_TWO_PHASE}
                                            NIL) w4
                             else w4)))"

subsection \<open>RenameTableSpace\<close>

text \<open>simple_heap_update on the row the scan stands on.\<close>

fun simple_heap_update :: "'a list \<Rightarrow> 'a \<Rightarrow> 'a \<Rightarrow> 'a list" where
  "simple_heap_update [] otup newtup = []"
| "simple_heap_update (t # rel) otup newtup =
     (if t = otup then newtup # rel else t # simple_heap_update rel otup newtup)"

definition RenameTableSpace :: "env \<Rightarrow> string \<Rightarrow> string \<Rightarrow> world \<Rightarrow> Oid result" where
  "RenameTableSpace env oldname newname w =
     (case scan_spcname (pg_tablespace w) oldname of
        None \<Rightarrow> Inl (tablespace_does_not_exist oldname, w)
      | Some tup \<Rightarrow>
          let tspId = fst tup;
              tablespaceoid = fst tup
          in
          if \<not> pg_tablespace_ownercheck env tablespaceoid (GetUserId env)
          then Inl (aclcheck_error ACLCHECK_NO_PRIV oldname, w)
          else if \<not> allowSystemTableMods env \<and> IsReservedName env newname
          then Inl (unacceptable_tablespace_name newname, w)
          else
            (case scan_spcname (pg_tablespace w) newname of
               Some other \<Rightarrow> Inl (tablespace_already_exists newname, w)
             | None \<Rightarrow>
                 let newtuple = (tspId, (snd tup)\<lparr>spcname := newname\<rparr>);
                     w1 = w\<lparr>pg_tablespace := simple_heap_update (pg_tablespace w) tup newtuple\<rparr>;
                     w2 = (if Gp_role env = GP_ROLE_DISPATCH
                           then called (Call_MetaTrackUpdObject tablespaceoid) w1 else w1)
                 in Inr (tspId, called (Call_InvokeObjectPostAlterHook tspId) w2)))"

subsection \<open>Temporary and default tablespaces\<close>

text \<open>
  Modelled from the spec: the three functions of fd.c that hold the temporary
  tablespaces of the transaction (fd.c is not under src/). The list is unset at the
  start of a transaction; once set, its entries are handed out round-robin, and an
  empty list gives the sentinel.
\<close>

definition TempTablespacesAreSet :: "world \<Rightarrow> bool" where
  "TempTablespacesAreSet w = (tempTableSpaces w \<noteq> None)"

definition SetTempTablespaces :: "env \<Rightarrow> Oid list \<Rightarrow> world \<Rightarrow> world" where
  "SetTempTablespaces env tblSpcs w =
     w\<lparr>tempTableSpaces := Some tblSpcs,
       nextTempTableSpace := (if length tblSpcs > 1 then random env mod length tblSpcs else 0)\<rparr>"

definition GetNextTempTableSpace :: "world \<Rightarrow> Oid \<times> world" where
  "GetNextTempTableSpace w =
     (case tempTableSpaces w of
        None \<Rightarrow> (InvalidOid, w)
      | Some tblSpcs \<Rightarrow>
          if length tblSpcs > 0
          then let n = (if nextTempTableSpace w + 1 \<ge> length tblSpcs then 0
                        else nextTempTableSpace w + 1)
               in (tblSpcs ! n, w\<lparr>nextTempTableSpace := n\<rparr>)
          else (InvalidOid, w))"

text \<open>
  The foreach of PrepareTempTablespaces over the names; \<open>tblSpcs\<close> is the array filled
  so far (\<open>tblSpcs[numSpcs++] = x\<close> appends).
\<close>

fun temp_tablespaces_loop :: "env \<Rightarrow> string list \<Rightarrow> Oid list \<Rightarrow> world \<Rightarrow> (Oid list) result" where
  "temp_tablespaces_loop env [] tblSpcs w = Inr (tblSpcs, w)"
| "temp_tablespaces_loop env (curname # rest) tblSpcs w =
     (if curname = [] then temp_tablespaces_loop env rest (tblSpcs @ [InvalidOid]) w
      else
        case get_tablespace_oid env curname True w of
          Inl err \<Rightarrow> Inl err
        | Inr (curoid, w1) \<Rightarrow>
            if curoid = InvalidOid then temp_tablespaces_loop env rest tblSpcs w1
            else if curoid = MyDatabaseTableSpace env
            then temp_tablespaces_loop env rest (tblSpcs @ [InvalidOid]) w1
            else if pg_tablespace_aclcheck env curoid (GetUserId env) \<noteq> ACLCHECK_OK
            then temp_tablespaces_loop env rest tblSpcs w1
            else temp_tablespaces_loop env rest (tblSpcs @ [curoid]) w1)"

definition PrepareTempTablespaces :: "env \<Rightarrow> world \<Rightarrow> unit result" where
  "PrepareTempTablespaces env w =
     (if TempTablespacesAreSet w then Inr ((), w)
      else if \<not> IsTransactionState env then Inr ((), w)
      else
        case SplitIdentifierString env (temp_tablespaces env) of
          None \<Rightarrow> Inr ((), SetTempTablespaces env [] w)
        | Some namelist \<Rightarrow>
            (case temp_tablespaces_loop env namelist [] w of
               Inl err \<Rightarrow> Inl err
             | Inr (tblSpcs, w1) \<Rightarrow> Inr ((), SetTempTablespaces env tblSpcs w1)))"

text \<open>pg_class.h: the letter that marks a temporary relation.\<close>

definition RELPERSISTENCE_TEMP :: char where
  "RELPERSISTENCE_TEMP = CHR ''t''"

definition GetDefaultTablespace :: "env \<Rightarrow> char \<Rightarrow> world \<Rightarrow> Oid result" where
  "GetDefaultTablespace env relpersistence w =
     (if relpersistence = RELPERSISTENCE_TEMP
      then (case PrepareTempTablespaces env w of
              Inl err \<Rightarrow> Inl err
            | Inr (u, w1) \<Rightarrow> Inr (GetNextTempTableSpace w1))
      else
        case default_tablespace env of
          None \<Rightarrow> Inr (InvalidOid, w)
        | Some name \<Rightarrow>
            if name = [] then Inr (InvalidOid, w)
            else
              (case get_tablespace_oid env name True w of
                 Inl err \<Rightarrow> Inl err
               | Inr (result, w1) \<Rightarrow>
                   Inr (if result = MyDatabaseTableSpace env then InvalidOid else result, w1)))"

subsection \<open>tblspc_redo\<close>

definition tblspc_redo :: "env \<Rightarrow> xl_tblspc_rec \<Rightarrow> world \<Rightarrow> unit result" where
  "tblspc_redo env record w =
     (case record of
        XLOG_TBLSPC_CREATE ts_id ts_path \<Rightarrow> create_tablespace_directories env ts_path ts_id w
      | XLOG_TBLSPC_DROP ts_id \<Rightarrow>
          (case destroy_tablespace_directories env ts_id True w of
             Inl err \<Rightarrow> Inl err
           | Inr (True, w1) \<Rightarrow> Inr ((), w1)
           | Inr (False, w1) \<Rightarrow>
               let w2 = ResolveRecoveryConflictWithTablespace env ts_id w1 in
               (case destroy_tablespace_directories env ts_id True w2 of
                  Inl err \<Rightarrow> Inl err
                | Inr (True, w3) \<Rightarrow> Inr ((), w3)
                | Inr (False, w3) \<Rightarrow>
                    Inr ((), ereport LOG ERRCODE_OBJECT_NOT_IN_PREREQUISITE_STATE
                               (''directories for tablespace '' @ decimal (unat ts_id)
                                  @ '' could not be removed'') w3)))
      | XLOG_TBLSPC_OTHER info \<Rightarrow>
          Inl ((PANIC, ERRCODE_INTERNAL_ERROR, ''tblspc_redo: unknown op code '' @ decimal info), w))"

subsection \<open>Vocabulary of the properties\<close>

definition is_checkpoint_request :: "call \<Rightarrow> bool" where
  "is_checkpoint_request c = (case c of Call_RequestCheckpoint flags \<Rightarrow> True | _ \<Rightarrow> False)"

text \<open>A name that can stand for one entry of a directory.\<close>

definition valid_name :: "string \<Rightarrow> bool" where
  "valid_name v = (v \<noteq> [] \<and> v \<noteq> ''.'' \<and> v \<noteq> ''..'' \<and> CHR ''/'' \<notin> set v)"

definition dispatch_flags_of :: "call \<Rightarrow> dispatch_flag set" where
  "dispatch_flags_of c =
     (case c of Call_CdbDispatchUtilityStatement stmt flags oids \<Rightarrow> flags | _ \<Rightarrow> {})"

text \<open>
  What one name of temp_tablespaces stands for, in the words of the specification: the
  empty name and the name of the database's own tablespace stand for the sentinel; a
  name that resolves to no tablespace (no row, or a row whose OID is not valid), or to
  one the user may not create in, stands for nothing.
\<close>

definition temp_tablespace_entry :: "env \<Rightarrow> (Oid \<times> Form_pg_tablespace) list \<Rightarrow> string \<Rightarrow> Oid option" where
  "temp_tablespace_entry env rel name =
     (if name = [] then Some InvalidOid
      else case scan_spcname rel name of
             None \<Rightarrow> None
           | Some (oid, form) \<Rightarrow>
               if oid = InvalidOid then None
               else if oid = MyDatabaseTableSpace env then Some InvalidOid
               else if pg_tablespace_aclcheck env oid (GetUserId env) = ACLCHECK_OK then Some oid
               else None)"

subsection \<open>The world a result leaves\<close>

definition result_world :: "'a result \<Rightarrow> world" where
  "result_world r = (case r of Inl (err, w) \<Rightarrow> w | Inr (x, w) \<Rightarrow> w)"

subsection \<open>An example cluster\<close>

text \<open>
  A coordinator with two segments, the superuser at the keyboard, the data directory
  /pgdata and an empty directory /data/ts1 for a tablespace. The functions of other
  modules are given simple stand-ins.
\<close>

fun split_commas :: "string \<Rightarrow> string list" where
  "split_commas [] = [[]]"
| "split_commas (c # cs) =
     (if c = CHR '','' then [] # split_commas cs
      else (case split_commas cs of [] \<Rightarrow> [[c]] | x # xs \<Rightarrow> (c # x) # xs))"

definition example_parent_directory :: "string \<Rightarrow> string" where
  "example_parent_directory path = rev (tl (dropWhile (\<lambda>c. c \<noteq> CHR ''/'') (rev path)))"

definition example_env :: env where
  "example_env =
     \<lparr>superuser = True, GetUserId = 10,
      get_role_oid = (\<lambda>r. if r = ''gpadmin'' then Some 10 else None),
      Gp_role = GP_ROLE_DISPATCH, segindex = - 1, getgpsegmentCount = 2,
      allowSystemTableMods = False, InRecovery = False, IsTransactionState = True,
      default_tablespace = None, temp_tablespaces = [],
      MyDatabaseTableSpace = 1663, GLOBALTABLESPACE_OID = 1664, DEFAULTTABLESPACE_OID = 1663,
      MAXPGPATH = 1024, OIDCHARS = 10, FORKNAMECHARS = 4,
      tablespace_version_directory = ''GPDB_6_db1'',
      IsReservedName = (\<lambda>n. take 3 n = ''pg_'' \<or> take 3 n = ''gp_''),
      GetReservedPrefix = take 3,
      canonicalize_path = (\<lambda>p. p),
      get_parent_directory = example_parent_directory,
      GetDatabasePath = (\<lambda>db spc. ''pg_tblspc/'' @ decimal (unat spc) @ ''/GPDB_6_db1/'' @ decimal (unat db)),
      pg_atoi = (\<lambda>s. if s = ''0'' then Inr 0 else if s = ''1'' then Inr 1
                       else Inl (ERROR, ERRCODE_SYNTAX_ERROR, ''invalid input syntax for integer'')),
      SplitIdentifierString = (\<lambda>s. Some (split_commas s)),
      transformRelOptions = (\<lambda>opts. Inr None),
      tablespace_reloptions = (\<lambda>opts. None),
      GetNewOid = (\<lambda>rel. 16384 + of_nat (length rel)),
      pg_tablespace_ownercheck = (\<lambda>spc role. True),
      pg_tablespace_aclcheck = (\<lambda>spc role. ACLCHECK_OK),
      heap_lock_tuple = (\<lambda>oid. HeapTupleMayBeUpdated),
      checkpoint_files = (\<lambda>f. f),
      recovery_conflict_files = (\<lambda>oid f. f),
      random = 0\<rparr>"

definition example_disk :: fsys where
  "example_disk =
     \<lparr>files = [([''pgdata''], S_IFDIR), ([''pgdata'', ''pg_tblspc''], S_IFDIR),
               ([''data''], S_IFDIR), ([''data'', ''ts1''], S_IFDIR)],
      cwd = [''pgdata'']\<rparr>"

definition example_world :: world where
  "example_world =
     \<lparr>disk = example_disk,
      pg_tablespace = [(1663, \<lparr>spcname = ''pg_default'', spcowner = 10, spcoptions = None\<rparr>),
                       (1664, \<lparr>spcname = ''pg_global'', spcowner = 10, spcoptions = None\<rparr>)],
      elog = [], calls = [], tempTableSpaces = None, nextTempTableSpace = 0\<rparr>"

text \<open>The same cluster once \<open>CREATE TABLESPACE ts1 LOCATION '/data/ts1'\<close> has run.\<close>

definition example_disk_ts1 :: fsys where
  "example_disk_ts1 =
     \<lparr>files = [([''pgdata''], S_IFDIR), ([''pgdata'', ''pg_tblspc''], S_IFDIR),
               ([''data''], S_IFDIR), ([''data'', ''ts1''], S_IFDIR),
               ([''data'', ''ts1'', ''GPDB_6_db1''], S_IFDIR),
               ([''pgdata'', ''pg_tblspc'', ''16386''], S_IFLNK ''/data/ts1'')],
      cwd = [''pgdata'']\<rparr>"

definition example_world_ts1 :: world where
  "example_world_ts1 =
     \<lparr>disk = example_disk_ts1,
      pg_tablespace = [(1663, \<lparr>spcname = ''pg_default'', spcowner = 10, spcoptions = None\<rparr>),
                       (1664, \<lparr>spcname = ''pg_global'', spcowner = 10, spcoptions = None\<rparr>),
                       (16386, \<lparr>spcname = ''ts1'', spcowner = 10, spcoptions = None\<rparr>)],
      elog = [], calls = [], tempTableSpaces = None, nextTempTableSpace = 0\<rparr>"

text \<open>And once database 5 has a table with its file in ts1.\<close>

definition example_disk_in_use :: fsys where
  "example_disk_in_use =
     \<lparr>files = [([''pgdata''], S_IFDIR), ([''pgdata'', ''pg_tblspc''], S_IFDIR),
               ([''data''], S_IFDIR), ([''data'', ''ts1''], S_IFDIR),
               ([''data'', ''ts1'', ''GPDB_6_db1''], S_IFDIR),
               ([''pgdata'', ''pg_tblspc'', ''16386''], S_IFLNK ''/data/ts1''),
               ([''data'', ''ts1'', ''GPDB_6_db1'', ''5''], S_IFDIR),
               ([''data'', ''ts1'', ''GPDB_6_db1'', ''5'', ''16390''], S_IFREG)],
      cwd = [''pgdata'']\<rparr>"

definition example_world_in_use :: world where
  "example_world_in_use = example_world_ts1\<lparr>disk := example_disk_in_use\<rparr>"

definition example_drop_ts1 :: DropTableSpaceStmt where
  "example_drop_ts1 = \<lparr>drop_tablespacename = ''ts1'', drop_missing_ok = False\<rparr>"

definition example_create_ts1 :: CreateTableSpaceStmt where
  "example_create_ts1 =
     \<lparr>create_tablespacename = ''ts1'', create_owner = None,
      create_location = ''/data/ts1'', create_options = []\<rparr>"

text \<open>A statement with a relative location, and a list of temporary tablespaces.\<close>

definition example_create_relative :: CreateTableSpaceStmt where
  "example_create_relative =
     \<lparr>create_tablespacename = ''ts2'', create_owner = None,
      create_location = ''data/ts2'', create_options = []\<rparr>"

definition example_env_temp :: env where
  "example_env_temp = example_env\<lparr>temp_tablespaces := ''ts1,,nosuch,pg_default''\<rparr>"

text \<open>The example cluster once create_tablespace_directories has run for /data/ts1.\<close>

definition example_world_after_create :: world where
  "example_world_after_create = example_world\<lparr>disk := example_disk_ts1\<rparr>"

text \<open>
  A session in utility mode on the segment of content 0, and a statement whose own
  location is relative but which carries an absolute location for that segment.
\<close>

definition example_env_segment :: env where
  "example_env_segment =
     example_env\<lparr>Gp_role := GP_ROLE_UTILITY, segindex := 0,
                  transformRelOptions :=
                    (\<lambda>opts. Inr (if opts = [] then None
                                 else Some (map (\<lambda>(name, val). name @ ''='' @ val) opts)))\<rparr>"

definition example_create_override :: CreateTableSpaceStmt where
  "example_create_override =
     \<lparr>create_tablespacename = ''ts1'', create_owner = None,
      create_location = ''data/ts1'', create_options = [(''content0'', ''/data/ts1'')]\<rparr>"

section \<open>Properties\<close>

subsection \<open>Evaluation of the examples\<close>

lemma decimal_small: "n < 10 \<Longrightarrow> decimal n = [digit_char n]"
  by (simp add: decimal.simps)

lemma decimal_large: "\<not> n < 10 \<Longrightarrow> decimal n = decimal (n div 10) @ [digit_char (n mod 10)]"
  by (subst decimal.simps) simp

lemma decimal_16386: "decimal 16386 = ''16386''"
  by (simp add: decimal_small decimal_large digit_char_def)

lemmas fs_eval = sys_stat_def sys_lstat_def sys_chmod_def sys_mkdir_def sys_symlink_def
  sys_rmdir_def sys_unlink_def sys_opendir_def namei_def namei_parent_def walk_from_def
  path_components_def is_absolute_path_def fs_lookup_def fs_children_def fs_remove_def
  fs_remove_below_def MAXSYMLINKS_def rmtree_def Let_def

lemmas example_eval = example_env_def example_world_def example_disk_def
  example_world_ts1_def example_disk_ts1_def example_world_in_use_def example_disk_in_use_def
  example_drop_ts1_def example_create_ts1_def example_parent_directory_def decimal_16386

subsection \<open>What the directory functions leave alone\<close>

lemma result_world_simps [simp]:
  "result_world (Inl (err, w)) = w" "result_world (Inr (x, w)) = w"
  by (simp_all add: result_world_def)

lemma ereport_frame [simp]:
  "calls (ereport l c m w) = calls w" "pg_tablespace (ereport l c m w) = pg_tablespace w"
  "disk (ereport l c m w) = disk w" "tempTableSpaces (ereport l c m w) = tempTableSpaces w"
  "elog (ereport l c m w) = elog w @ [(l, c, m)]"
  by (simp_all add: ereport_def)

lemma called_frame [simp]:
  "calls (called c w) = calls w @ [c]" "pg_tablespace (called c w) = pg_tablespace w"
  "disk (called c w) = disk w" "tempTableSpaces (called c w) = tempTableSpaces w"
  "elog (called c w) = elog w"
  by (simp_all add: called_def)

lemma destroy_database_directories_frame:
  "calls (result_world (destroy_database_directories redo d names w)) = calls w \<and>
   pg_tablespace (result_world (destroy_database_directories redo d names w)) = pg_tablespace w"
  by (induction redo d names w rule: destroy_database_directories.induct)
     (auto simp: Let_def split: sum.splits bool.splits)

lemma destroy_database_directories_Inr:
  "destroy_database_directories redo d names w = Inr (b, w') \<Longrightarrow>
   calls w' = calls w \<and> pg_tablespace w' = pg_tablespace w"
  using destroy_database_directories_frame [of redo d names w] by simp

lemma destroy_database_directories_Inl:
  "destroy_database_directories redo d names w = Inl (e, w') \<Longrightarrow>
   calls w' = calls w \<and> pg_tablespace w' = pg_tablespace w"
  using destroy_database_directories_frame [of redo d names w] by simp

lemma remove_symlink_Inr:
  "remove_symlink env redo d w = Inr (b, w') \<Longrightarrow>
   calls w' = calls w \<and> pg_tablespace w' = pg_tablespace w"
  by (auto simp: remove_symlink_def Let_def split: sum.splits if_splits)

lemma remove_symlink_Inl:
  "remove_symlink env redo d w = Inl (e, w') \<Longrightarrow>
   calls w' = calls w \<and> pg_tablespace w' = pg_tablespace w"
  by (auto simp: remove_symlink_def Let_def split: sum.splits if_splits)

lemma destroy_tablespace_directories_Inr:
  "destroy_tablespace_directories env oid redo w = Inr (b, w') \<Longrightarrow>
   calls w' = calls w \<and> pg_tablespace w' = pg_tablespace w"
  unfolding destroy_tablespace_directories_def Let_def
  by (auto split: sum.splits bool.splits prod.splits if_splits
        dest!: remove_symlink_Inr destroy_database_directories_Inr)

lemma destroy_tablespace_directories_Inl:
  "destroy_tablespace_directories env oid redo w = Inl (e, w') \<Longrightarrow>
   calls w' = calls w \<and> pg_tablespace w' = pg_tablespace w"
  unfolding destroy_tablespace_directories_def Let_def
  by (auto split: sum.splits bool.splits prod.splits if_splits
        dest!: remove_symlink_Inl destroy_database_directories_Inr destroy_database_directories_Inl)

lemma destroy_database_directories_redo:
  "destroy_database_directories True d names w \<noteq> Inl x"
  by (induction "True" d names w rule: destroy_database_directories.induct)
     (auto simp: Let_def split: sum.splits bool.splits)

lemma remove_symlink_redo: "remove_symlink env True d w \<noteq> Inl x"
  by (auto simp: remove_symlink_def Let_def split: sum.splits)

lemma destroy_tablespace_directories_redo:
  "destroy_tablespace_directories env oid True w \<noteq> Inl x"
  by (auto simp: destroy_tablespace_directories_def Let_def destroy_database_directories_redo
        remove_symlink_redo split: sum.splits bool.splits prod.splits)

subsection \<open>Lookup of a name that may be missing\<close>

lemma get_tablespace_oid_missing:
  "scan_spcname (pg_tablespace w) name = None \<Longrightarrow>
   get_tablespace_oid env name True w = Inr (InvalidOid, w)"
  by (simp add: get_tablespace_oid_def OidIsValid_def)

lemma get_tablespace_oid_error_code:
  "get_tablespace_oid env name True w = Inl (err, w') \<Longrightarrow>
   fst (snd err) \<noteq> ERRCODE_UNDEFINED_OBJECT \<and> w' = w"
  by (auto simp: get_tablespace_oid_def Let_def could_not_serialize_def
        split: if_splits HTSU_Result.splits option.splits)

subsection \<open>Runs of the commands on the example cluster\<close>

lemmas command_eval = DropTableSpace_def CreateTableSpace_def remove_catalog_entries_def
  remove_physical_infrastructure_def destroy_tablespace_directories_def remove_symlink_def
  create_tablespace_directories_def remove_old_symlink_def directory_is_empty_def
  get_tablespace_oid_def scan_spcname_def OidIsValid_def InvalidOid_def
  RequestCheckpoint_def called_def ereport_def could_not_open_directory_def
  could_not_remove_directory_def could_not_create_directory_def

lemma example_drop_ts1_run:
  "DropTableSpace example_env example_drop_ts1 example_world_ts1 =
     Inr ((),
          \<lparr>disk = example_disk,
           pg_tablespace = pg_tablespace example_world,
           elog = [],
           calls = [Call_InvokeObjectDropHook 16386, Call_DeleteSharedComments 16386,
                    Call_DeleteSharedSecurityLabel 16386,
                    Call_deleteSharedDependencyRecordsFor 16386,
                    Call_MetaTrackDropObject 16386, Call_LWLockAcquire_TablespaceCreateLock,
                    Call_XLogInsert (XLOG_TBLSPC_DROP 16386), Call_ForceSyncCommit,
                    Call_LWLockRelease_TablespaceCreateLock,
                    Call_CdbDispatchUtilityStatement (T_DropTableSpaceStmt example_drop_ts1)
                      {DF_CANCEL_ON_ERROR, DF_WITH_SNAPSHOT, DF_NEED_TWO_PHASE} NIL],
           tempTableSpaces = None, nextTempTableSpace = 0\<rparr>)"
  by (simp add: command_eval fs_eval example_eval)

lemma example_create_ts1_run:
  "CreateTableSpace example_env example_create_ts1 example_world =
     Inr (16386,
          example_world_ts1
            \<lparr>calls := [Call_recordDependencyOnOwner 16386 10, Call_InvokeObjectPostCreateHook 16386,
                       Call_XLogInsert (XLOG_TBLSPC_CREATE 16386 ''/data/ts1''),
                       Call_ForceSyncCommit,
                       Call_CdbDispatchUtilityStatement (T_CreateTableSpaceStmt example_create_ts1)
                         {DF_CANCEL_ON_ERROR, DF_WITH_SNAPSHOT, DF_NEED_TWO_PHASE}
                         AssignedOidsForDispatch,
                       Call_MetaTrackAddObject 16386]\<rparr>)"
  by (simp add: command_eval fs_eval example_eval)

subsection \<open>The dispatch at the end of the commands\<close>

lemma DropTableSpace_dispatches:
  assumes "Gp_role env = GP_ROLE_DISPATCH"
      and "DropTableSpace env stmt w = Inr ((), w')"
      and "scan_spcname (pg_tablespace w) (drop_tablespacename stmt) \<noteq> None"
  shows "last (calls w') = Call_CdbDispatchUtilityStatement (T_DropTableSpaceStmt stmt)
                              {DF_CANCEL_ON_ERROR, DF_WITH_SNAPSHOT, DF_NEED_TWO_PHASE} NIL"
  using assms
  by (auto simp: DropTableSpace_def Let_def split: option.splits if_splits sum.splits)

lemma CreateTableSpace_dispatches:
  assumes "Gp_role env = GP_ROLE_DISPATCH"
      and "CreateTableSpace env stmt w = Inr (oid, w')"
  shows "calls w' = butlast (butlast (calls w')) @
           [Call_CdbDispatchUtilityStatement (T_CreateTableSpaceStmt stmt)
              {DF_CANCEL_ON_ERROR, DF_WITH_SNAPSHOT, DF_NEED_TWO_PHASE} AssignedOidsForDispatch,
            Call_MetaTrackAddObject oid]"
  using assms
  by (auto simp: CreateTableSpace_def Let_def butlast_append
        split: option.splits if_splits sum.splits prod.splits)

subsection \<open>Calls made around the removal of the directories\<close>

lemma destroy_tablespace_directories_calls:
  "calls (result_world (destroy_tablespace_directories env oid redo w)) = calls w"
proof (cases "destroy_tablespace_directories env oid redo w")
  case (Inl a)
  then show ?thesis using destroy_tablespace_directories_Inl [of env oid redo w "fst a" "snd a"]
    by (cases a) simp
next
  case (Inr b)
  then show ?thesis using destroy_tablespace_directories_Inr [of env oid redo w "fst b" "snd b"]
    by (cases b) simp
qed

lemma remove_catalog_entries_no_checkpoint:
  "filter is_checkpoint_request (calls (remove_catalog_entries env tuple w)) =
   filter is_checkpoint_request (calls w)"
  by (simp add: remove_catalog_entries_def Let_def is_checkpoint_request_def)

subsection \<open>The loop over the names of temp_tablespaces\<close>

lemma get_tablespace_oid_locked:
  assumes "\<forall>oid. heap_lock_tuple env oid = HeapTupleMayBeUpdated"
  shows "\<exists>w'. get_tablespace_oid env name True w =
                 Inr (case scan_spcname (pg_tablespace w) name of
                        Some (oid, form) \<Rightarrow> oid | None \<Rightarrow> InvalidOid, w') \<and>
               pg_tablespace w' = pg_tablespace w \<and> elog w' = elog w \<and> disk w' = disk w \<and>
               tempTableSpaces w' = tempTableSpaces w"
  using assms by (simp add: get_tablespace_oid_def Let_def)

lemma temp_tablespaces_loop_spec:
  assumes "\<forall>oid. heap_lock_tuple env oid = HeapTupleMayBeUpdated"
  shows "\<exists>w'. temp_tablespaces_loop env namelist tblSpcs w =
                 Inr (tblSpcs @ List.map_filter (temp_tablespace_entry env (pg_tablespace w)) namelist, w') \<and>
               pg_tablespace w' = pg_tablespace w \<and> elog w' = elog w \<and> disk w' = disk w \<and>
               tempTableSpaces w' = tempTableSpaces w"
proof (induction namelist arbitrary: tblSpcs w)
  case Nil
  then show ?case by (simp add: List.map_filter_simps)
next
  case (Cons curname rest)
  show ?case
  proof (cases "curname = []")
    case True
    then show ?thesis
      using Cons.IH [of "tblSpcs @ [InvalidOid]" w]
      by (simp add: List.map_filter_simps temp_tablespace_entry_def)
  next
    case False
    obtain w1 where g: "get_tablespace_oid env curname True w =
                 Inr (case scan_spcname (pg_tablespace w) curname of
                        Some (oid, form) \<Rightarrow> oid | None \<Rightarrow> InvalidOid, w1)"
      and f: "pg_tablespace w1 = pg_tablespace w" "elog w1 = elog w" "disk w1 = disk w"
             "tempTableSpaces w1 = tempTableSpaces w"
      using get_tablespace_oid_locked [OF assms, of curname w] by blast
    let ?entry = "temp_tablespace_entry env (pg_tablespace w) curname"
    let ?acc = "tblSpcs @ (case ?entry of None \<Rightarrow> [] | Some x \<Rightarrow> [x])"
    have step: "temp_tablespaces_loop env (curname # rest) tblSpcs w =
                temp_tablespaces_loop env rest ?acc w1"
      using False g by (auto simp: temp_tablespace_entry_def split: option.splits)
    obtain w' where r: "temp_tablespaces_loop env rest ?acc w1 =
                 Inr (?acc @ List.map_filter (temp_tablespace_entry env (pg_tablespace w1)) rest, w')"
      and f': "pg_tablespace w' = pg_tablespace w1" "elog w' = elog w1" "disk w' = disk w1"
              "tempTableSpaces w' = tempTableSpaces w1"
      using Cons.IH [of ?acc w1] by blast
    have "?acc @ List.map_filter (temp_tablespace_entry env (pg_tablespace w1)) rest =
          tblSpcs @ List.map_filter (temp_tablespace_entry env (pg_tablespace w)) (curname # rest)"
      using f by (cases ?entry) (simp_all add: List.map_filter_simps)
    then show ?thesis using step r f f' by simp
  qed
qed

subsection \<open>Paths and the walk\<close>

lemma split_path_not_Nil: "split_path s \<noteq> []"
  by (induction s) (auto split: list.splits)

lemma split_path_append:
  "split_path (a @ CHR ''/'' # b) = split_path a @ split_path b"
proof (induction a)
  case Nil
  show ?case by simp
next
  case (Cons c a)
  obtain x xs where x: "split_path a = x # xs"
    using split_path_not_Nil [of a] by (cases "split_path a") auto
  show ?case using Cons x by simp
qed

lemma split_path_name: "CHR ''/'' \<notin> set v \<Longrightarrow> split_path v = [v]"
  by (induction v) auto

lemma path_components_append:
  assumes "valid_name v"
  shows "path_components (location @ ''/'' @ v) = path_components location @ [v]"
  using assms
  by (simp add: path_components_def split_path_append split_path_name valid_name_def)

lemma walk_from_append:
  "location \<noteq> [] \<Longrightarrow> walk_from f (location @ ''/'' @ v) = walk_from f location"
  by (cases location) (simp_all add: walk_from_def is_absolute_path_def)

lemma fs_lookup_mono:
  "map_of fs \<subseteq>\<^sub>m map_of fs' \<Longrightarrow> fs_lookup fs p = Some t \<Longrightarrow> fs_lookup fs' p = Some t"
  by (auto simp: fs_lookup_def map_le_def dom_def split: if_splits)

lemma walk_mono:
  "map_of fs \<subseteq>\<^sub>m map_of fs' \<Longrightarrow> walk n fs cur cs = Inr r \<Longrightarrow> walk n fs' cur cs = Inr r"
proof (induction n fs cur cs rule: walk.induct)
  case (1 n fs cur)
  then show ?case by simp
next
  case (2 n fs cur c cs)
  note le = "2.prems" (1)
  note run = "2.prems" (2)
  note le' = fs_lookup_mono [OF le]
  from run have d: "fs_lookup fs cur = Some S_IFDIR"
    by (auto split: option.splits ftype.splits)
  show ?case
  proof (cases "c = ''..''")
    case True
    then show ?thesis using 2 d le' [OF d] by simp
  next
    case False
    from run d False obtain t where t: "fs_lookup fs (cur @ [c]) = Some t"
      by (auto split: option.splits)
    show ?thesis
    proof (cases t)
      case S_IFDIR
      then show ?thesis using 2 d False t le' [OF d] le' [OF t] by simp
    next
      case S_IFREG
      then show ?thesis using 2 d False t le' [OF d] le' [OF t] by simp
    next
      case (S_IFLNK target)
      show ?thesis
      proof (cases n)
        case 0
        then show ?thesis using run d False t S_IFLNK by simp
      next
        case (Suc m)
        then show ?thesis using 2 d False t S_IFLNK le' [OF d] le' [OF t] by simp
      qed
    qed
  qed
qed

lemma walk_snoc_forward:
  assumes c: "c \<noteq> ''..''"
  shows "walk n fs cur cs = Inr q \<Longrightarrow> fs_lookup fs q = Some S_IFDIR \<Longrightarrow>
         fs_lookup fs (q @ [c]) = Some S_IFDIR \<Longrightarrow> walk n fs cur (cs @ [c]) = Inr (q @ [c])"
proof (induction n fs cur cs rule: walk.induct)
  case (1 n fs cur)
  then show ?case using c by simp
next
  case (2 n fs cur c0 cs)
  from "2.prems" have d: "fs_lookup fs cur = Some S_IFDIR"
    by (auto split: option.splits ftype.splits)
  show ?case
  proof (cases "c0 = ''..''")
    case True
    then show ?thesis using 2 d by simp
  next
    case False
    from "2.prems" d False obtain t where t: "fs_lookup fs (cur @ [c0]) = Some t"
      by (auto split: option.splits)
    show ?thesis
    proof (cases t)
      case S_IFDIR
      then show ?thesis using 2 d False t by simp
    next
      case S_IFREG
      then show ?thesis using 2 d False t by simp
    next
      case (S_IFLNK target)
      show ?thesis
      proof (cases n)
        case 0
        then show ?thesis using "2.prems" d False t S_IFLNK by simp
      next
        case (Suc m)
        then show ?thesis using 2 d False t S_IFLNK by simp
      qed
    qed
  qed
qed

lemma walk_snoc_success:
  assumes c: "c \<noteq> ''..''"
  shows "walk n fs cur (cs @ [c]) = Inr p \<Longrightarrow>
         \<exists>q. walk n fs cur cs = Inr q \<and> fs_lookup fs q = Some S_IFDIR \<and>
             fs_lookup fs (q @ [c]) \<noteq> None"
proof (induction n fs cur cs rule: walk.induct)
  case (1 n fs cur)
  then show ?case using c by (auto split: option.splits ftype.splits)
next
  case (2 n fs cur c0 cs)
  from "2.prems" have d: "fs_lookup fs cur = Some S_IFDIR"
    by (auto split: option.splits ftype.splits)
  show ?case
  proof (cases "c0 = ''..''")
    case True
    then show ?thesis using 2 d by simp
  next
    case False
    from "2.prems" d False obtain t where t: "fs_lookup fs (cur @ [c0]) = Some t"
      by (auto split: option.splits)
    show ?thesis
    proof (cases t)
      case S_IFDIR
      then show ?thesis using 2 d False t by simp
    next
      case S_IFREG
      then show ?thesis using 2 d False t by simp
    next
      case (S_IFLNK target)
      show ?thesis
      proof (cases n)
        case 0
        then show ?thesis using "2.prems" d False t S_IFLNK by simp
      next
        case (Suc m)
        then show ?thesis using 2 d False t S_IFLNK by simp
      qed
    qed
  qed
qed

subsection \<open>Lookups and system calls\<close>

lemma namei_mono:
  assumes le: "map_of (files f) \<subseteq>\<^sub>m map_of (files f')" and cwd: "cwd f' = cwd f"
      and run: "namei f p = Inr x"
  shows "namei f' p = Inr x"
proof -
  from run have p: "p \<noteq> []" by (auto simp: namei_def split: if_splits)
  from run p obtain t where w: "walk MAXSYMLINKS (files f) (walk_from f p) (path_components p) = Inr x"
    and t: "fs_lookup (files f) x = Some t"
    by (auto simp: namei_def split: sum.splits option.splits)
  have "walk MAXSYMLINKS (files f') (walk_from f' p) (path_components p) = Inr x"
    using walk_mono [OF le w] cwd by (auto simp: walk_from_def split: if_splits)
  then show ?thesis using p fs_lookup_mono [OF le t] by (simp add: namei_def)
qed

lemma namei_parent_mono:
  assumes le: "map_of (files f) \<subseteq>\<^sub>m map_of (files f')" and cwd: "cwd f' = cwd f"
      and run: "namei_parent f p = Inr x"
  shows "namei_parent f' p = Inr x"
proof -
  let ?cs = "path_components p"
  from run have p: "p \<noteq> []" and cs: "?cs \<noteq> []" and l: "last ?cs \<noteq> ''..''"
    by (auto simp: namei_parent_def Let_def split: if_splits)
  from run p cs l obtain q where
    w: "walk MAXSYMLINKS (files f) (walk_from f p) (butlast ?cs) = Inr q"
    and d: "fs_lookup (files f) q = Some S_IFDIR" and x: "x = q @ [last ?cs]"
    by (auto simp: namei_parent_def Let_def split: if_splits sum.splits option.splits ftype.splits)
  have "walk MAXSYMLINKS (files f') (walk_from f' p) (butlast ?cs) = Inr q"
    using walk_mono [OF le w] cwd by (auto simp: walk_from_def split: if_splits)
  then show ?thesis using p cs l x fs_lookup_mono [OF le d]
    by (simp add: namei_parent_def Let_def)
qed

lemma namei_parent_to_namei:
  assumes "namei_parent f p = Inr x" and "fs_lookup (files f) x = Some S_IFDIR"
  shows "namei f p = Inr x"
proof -
  let ?cs = "path_components p"
  from assms(1) have p: "p \<noteq> []" and cs: "?cs \<noteq> []" and l: "last ?cs \<noteq> ''..''"
    by (auto simp: namei_parent_def Let_def split: if_splits)
  from assms(1) p cs l obtain q where
    w: "walk MAXSYMLINKS (files f) (walk_from f p) (butlast ?cs) = Inr q"
    and d: "fs_lookup (files f) q = Some S_IFDIR" and x: "x = q @ [last ?cs]"
    by (auto simp: namei_parent_def Let_def split: if_splits sum.splits option.splits ftype.splits)
  have "walk MAXSYMLINKS (files f) (walk_from f p) (butlast ?cs @ [last ?cs]) = Inr (q @ [last ?cs])"
    using walk_snoc_forward [OF l w d] assms(2) x by simp
  then have "walk MAXSYMLINKS (files f) (walk_from f p) ?cs = Inr x"
    using cs x by simp
  then show ?thesis using p assms(2) by (simp add: namei_def)
qed

lemma namei_parentD:
  assumes "namei_parent f p = Inr x"
  shows "x \<noteq> [] \<and> fs_lookup (files f) (butlast x) = Some S_IFDIR"
  using assms
  by (auto simp: namei_parent_def Let_def split: if_splits sum.splits option.splits ftype.splits)

lemma sys_mkdirD:
  "sys_mkdir f p = Inr f' \<Longrightarrow>
   \<exists>x. namei_parent f p = Inr x \<and> fs_lookup (files f) x = None \<and>
       f' = f\<lparr>files := files f @ [(x, S_IFDIR)]\<rparr>"
  by (auto simp: sys_mkdir_def split: sum.splits option.splits)

lemma sys_symlinkD:
  "sys_symlink f target p = Inr f' \<Longrightarrow>
   \<exists>x. namei_parent f p = Inr x \<and> fs_lookup (files f) x = None \<and>
       f' = f\<lparr>files := files f @ [(x, S_IFLNK target)]\<rparr>"
  by (auto simp: sys_symlink_def split: sum.splits option.splits)

lemma sys_chmodD: "sys_chmod f p = Inr f' \<Longrightarrow> f' = f \<and> (\<exists>q. namei f p = Inr q)"
  by (auto simp: sys_chmod_def split: sum.splits)

lemma world_disk_same [simp]: "w\<lparr>disk := disk w\<rparr> = w"
  by simp

lemma example_ts1_exists:
  "sys_stat (disk example_world_ts1) (''/data/ts1'' @ ''/'' @ tablespace_version_directory example_env)
     = Inr S_IFDIR"
  by (simp add: fs_eval example_eval)

subsection \<open>Replay of the creation, step by step\<close>

lemma fs_wf_no_orphans:
  assumes wf: "fs_wf fs" and none: "fs_lookup fs p = None"
  shows "(k, t) \<in> set fs \<Longrightarrow> \<not> prefix p k"
proof
  assume k: "(k, t) \<in> set fs" and "prefix p k"
  then obtain r where r: "k = p @ r" by (auto simp: prefix_def)
  have p: "p \<noteq> []" using none by (auto simp: fs_lookup_def split: if_splits)
  have "\<And>t. (p @ r, t) \<notin> set fs"
  proof (induction r rule: rev_induct)
    case Nil
    show ?case
    proof
      assume "(p @ [], t) \<in> set fs"
      then have "map_of fs p \<noteq> None"
        by (metis append_Nil2 map_of_eq_None_iff fst_conv image_eqI)
      then show False using none p by (simp add: fs_lookup_def)
    qed
  next
    case (snoc x r)
    show ?case
    proof
      assume "(p @ r @ [x], t) \<in> set fs"
      then have "fs_lookup fs (butlast (p @ r @ [x])) = Some S_IFDIR"
        using wf by (auto simp: fs_wf_def list_all_iff)
      then have "fs_lookup fs (p @ r) = Some S_IFDIR"
        by (simp add: butlast_append)
      then have "map_of fs (p @ r) = Some S_IFDIR" using p by (simp add: fs_lookup_def)
      then have "(p @ r, S_IFDIR) \<in> set fs" by (rule map_of_SomeD)
      then show False using snoc.IH by blast
    qed
  qed
  then show False using k r by blast
qed

lemma map_le_append: "map_of fs \<subseteq>\<^sub>m map_of (fs @ ys)"
  by (simp add: map_le_def dom_def map_add_def split: option.splits) 

lemma create_tablespace_directories_normalD:
  assumes normal: "\<not> InRecovery env"
      and run: "create_tablespace_directories env location tablespaceoid w = Inr ((), w')"
      and lv: "lv = location @ ''/'' @ tablespace_version_directory env"
      and ll: "linkloc = ''pg_tblspc/'' @ decimal (unat tablespaceoid)"
  shows "\<exists>q qv lk.
           namei (disk w) location = Inr q \<and>
           namei_parent (disk w) lv = Inr qv \<and>
           fs_lookup (files (disk w)) qv = None \<and>
           namei_parent ((disk w)\<lparr>files := files (disk w) @ [(qv, S_IFDIR)]\<rparr>) linkloc = Inr lk \<and>
           fs_lookup (files (disk w) @ [(qv, S_IFDIR)]) lk = None \<and>
           w' = w\<lparr>disk := (disk w)\<lparr>files := files (disk w) @ [(qv, S_IFDIR), (lk, S_IFLNK location)]\<rparr>\<rparr>"
proof -
  from run normal obtain f0 where c: "sys_chmod (disk w) location = Inr f0"
    unfolding create_tablespace_directories_def Let_def
    by (auto split: sum.splits if_splits)
  from sys_chmodD [OF c] obtain q where f0: "f0 = disk w" and q: "namei (disk w) location = Inr q"
    by blast
  from run normal c f0 obtain f3 where m: "sys_mkdir (disk w) lv = Inr f3"
    unfolding create_tablespace_directories_def Let_def lv [symmetric] ll [symmetric]
    by (auto split: sum.splits if_splits)
  from sys_mkdirD [OF m] obtain qv where qv: "namei_parent (disk w) lv = Inr qv"
    "fs_lookup (files (disk w)) qv = None"
    and f3: "f3 = (disk w)\<lparr>files := files (disk w) @ [(qv, S_IFDIR)]\<rparr>"
    by blast
  from run normal c f0 m obtain f5 where s: "sys_symlink f3 location linkloc = Inr f5"
    and w': "w' = w\<lparr>disk := f5\<rparr>"
    unfolding create_tablespace_directories_def Let_def lv [symmetric] ll [symmetric]
    by (auto split: sum.splits if_splits)
  from sys_symlinkD [OF s] obtain lk where lk: "namei_parent f3 linkloc = Inr lk"
    "fs_lookup (files f3) lk = None"
    and f5: "f5 = f3\<lparr>files := files f3 @ [(lk, S_IFLNK location)]\<rparr>"
    by blast
  show ?thesis
    using q qv lk f3 f5 w' by auto
qed


lemma strict_prefix_butlast: "k \<noteq> [] \<Longrightarrow> butlast k = p \<Longrightarrow> strict_prefix p k"
  by (metis append_butlast_last_id not_Cons_self2 prefixI self_append_conv strict_prefix_def)

lemma create_tablespace_directories_redo_run:
  assumes rec: "InRecovery env"
      and lv: "lv = location @ ''/'' @ tablespace_version_directory env"
      and ll: "linkloc = ''pg_tblspc/'' @ decimal (unat tablespaceoid)"
      and wf: "fs_wf fs0"
      and q: "namei \<lparr>files = fs0, cwd = c\<rparr> location = Inr q"
      and qv: "namei_parent \<lparr>files = fs0, cwd = c\<rparr> lv = Inr qv"
      and qv0: "fs_lookup fs0 qv = None"
      and lk: "namei_parent \<lparr>files = fs0 @ [(qv, S_IFDIR)], cwd = c\<rparr> linkloc = Inr lk"
      and lk0: "fs_lookup (fs0 @ [(qv, S_IFDIR)]) lk = None"
      and rest: "list_all (\<lambda>(k, t). strict_prefix qv k \<or> k = lk) rest"
      and disk: "disk w = \<lparr>files = fs0 @ (qv, S_IFDIR) # rest, cwd = c\<rparr>"
  shows "create_tablespace_directories env location tablespaceoid w =
           Inr ((), w\<lparr>disk := \<lparr>files = fs0 @ [(qv, S_IFDIR), (lk, S_IFLNK location)], cwd = c\<rparr>\<rparr>)"
proof -
  define rest' where "rest' = filter (\<lambda>(k, t). \<not> strict_prefix qv k) rest"
  let ?F = "\<lambda>xs. \<lparr>files = xs, cwd = c\<rparr>"
  let ?S = "fs0 @ (qv, S_IFDIR) # rest"
  have qvne: "qv \<noteq> []" and qvp: "fs_lookup fs0 (butlast qv) = Some S_IFDIR"
    using namei_parentD [OF qv] by simp_all
  have lkne: "lk \<noteq> []" using namei_parentD [OF lk] by simp
  have m_qv: "map_of fs0 qv = None" using qv0 qvne by (simp add: fs_lookup_def)
  have lk_qv: "lk \<noteq> qv" using lk0 lkne by (auto simp: fs_lookup_def)
  have m_lk: "map_of fs0 lk = None" using lk0 lkne lk_qv by (simp add: fs_lookup_def)
  have lk00: "fs_lookup fs0 lk = None" using m_lk lkne by (simp add: fs_lookup_def)
  have no_qv: "\<And>k t. (k, t) \<in> set fs0 \<Longrightarrow> \<not> prefix qv k"
    using fs_wf_no_orphans [OF wf qv0] by blast
  have no_lk: "\<And>k t. (k, t) \<in> set fs0 \<Longrightarrow> \<not> prefix lk k"
    using fs_wf_no_orphans [OF wf lk00] by blast
  have rest'_keys: "\<And>k t. (k, t) \<in> set rest' \<Longrightarrow> k = lk \<and> \<not> strict_prefix qv k"
    using rest by (auto simp: rest'_def list_all_iff)
  have m_rest'_qv: "map_of rest' qv = None"
    using rest'_keys lk_qv by (auto simp: map_of_eq_None_iff)
  \<comment> \<open>chmod of the location\<close>
  have chmod: "sys_chmod (?F ?S) location = Inr (?F ?S)"
    using namei_mono [OF _ _ q, of "?F ?S"] map_le_append [of fs0]
    by (simp add: sys_chmod_def)
  \<comment> \<open>the version directory is there\<close>
  have np_S: "namei_parent (?F ?S) lv = Inr qv"
    using namei_parent_mono [OF _ _ qv, of "?F ?S"] map_le_append [of fs0] by simp
  have l_S: "fs_lookup ?S qv = Some S_IFDIR"
    using m_qv qvne by (simp add: fs_lookup_def map_add_def)
  have n_S: "namei (?F ?S) lv = Inr qv"
    using namei_parent_to_namei [OF np_S] l_S by simp
  have stat: "sys_stat (?F ?S) lv = Inr S_IFDIR"
    using n_S l_S by (simp add: sys_stat_def)
  \<comment> \<open>rmtree\<close>
  have f_fs0: "filter (\<lambda>(k, t). \<not> strict_prefix qv k) fs0 = fs0"
    using no_qv by (auto simp: filter_id_conv strict_prefix_def)
  have below: "fs_remove_below ?S qv = fs0 @ (qv, S_IFDIR) # rest'"
    using f_fs0 by (simp add: fs_remove_below_def rest'_def)
  let ?S1 = "fs0 @ (qv, S_IFDIR) # rest'"
  have np_S1: "namei_parent (?F ?S1) lv = Inr qv"
    using namei_parent_mono [OF _ _ qv, of "?F ?S1"] map_le_append [of fs0] by simp
  have l_S1: "fs_lookup ?S1 qv = Some S_IFDIR"
    using m_qv qvne by (simp add: fs_lookup_def map_add_def)
  have ch_S1: "fs_children ?S1 qv = []"
  proof -
    have "\<And>k t. (k, t) \<in> set ?S1 \<Longrightarrow> \<not> (k \<noteq> [] \<and> butlast k = qv)"
    proof
      fix k t assume k: "(k, t) \<in> set ?S1" and b: "k \<noteq> [] \<and> butlast k = qv"
      then have sp: "strict_prefix qv k" using strict_prefix_butlast by blast
      from k consider "(k, t) \<in> set fs0" | "k = qv" | "(k, t) \<in> set rest'" by auto
      then show False
      proof cases
        case 1 then show False using no_qv sp by (auto simp: strict_prefix_def)
      next
        case 2 then show False using sp by simp
      next
        case 3 then show False using rest'_keys sp by blast
      qed
    qed
    then show ?thesis by (auto simp: fs_children_def filter_empty_conv)
  qed
  have rm_S1: "fs_remove ?S1 qv = fs0 @ rest'"
  proof -
    have "filter (\<lambda>(k, t). k \<noteq> qv) fs0 = fs0"
      using no_qv by (auto simp: filter_id_conv)
    moreover have "filter (\<lambda>(k, t). k \<noteq> qv) rest' = rest'"
      using rest'_keys lk_qv by (auto simp: filter_id_conv)
    ultimately show ?thesis by (simp add: fs_remove_def)
  qed
  have rmdir: "sys_rmdir (?F ?S1) lv = Inr (?F (fs0 @ rest'))"
    using np_S1 l_S1 ch_S1 rm_S1 by (simp add: sys_rmdir_def)
  have opendir: "\<exists>names. sys_opendir (?F ?S) lv = Inr names"
    using n_S l_S by (simp add: sys_opendir_def)
  have rmtree: "rmtree (?F ?S) lv True = (True, ?F (fs0 @ rest'))"
    using opendir n_S below rmdir by (auto simp: rmtree_def Let_def)
  \<comment> \<open>mkdir of the version directory\<close>
  let ?S2 = "fs0 @ rest'"
  have np_S2: "namei_parent (?F ?S2) lv = Inr qv"
    using namei_parent_mono [OF _ _ qv, of "?F ?S2"] map_le_append [of fs0] by simp
  have l_S2: "fs_lookup ?S2 qv = None"
    using m_qv m_rest'_qv qvne by (simp add: fs_lookup_def map_add_def)
  have mkdir: "sys_mkdir (?F ?S2) lv = Inr (?F (fs0 @ rest' @ [(qv, S_IFDIR)]))"
    using np_S2 l_S2 by (simp add: sys_mkdir_def)
  \<comment> \<open>removal of what is at the link\<close>
  let ?S3 = "fs0 @ rest' @ [(qv, S_IFDIR)]"
  let ?A = "fs0 @ [(qv, S_IFDIR)]"
  have le_A: "map_of ?A \<subseteq>\<^sub>m map_of ?S3"
  proof -
    have "\<And>a. map_of rest' a \<noteq> None \<Longrightarrow> a = lk"
      using rest'_keys by (metis map_of_SomeD not_None_eq)
    then show ?thesis
      using m_lk lk_qv m_rest'_qv
      by (auto simp: map_le_def map_add_def dom_def split: option.splits if_splits)
  qed
  have np_S3: "namei_parent (?F ?S3) linkloc = Inr lk"
    using namei_parent_mono [OF _ _ lk, of "?F ?S3"] le_A by simp
  have ch_S3: "fs_children ?S3 lk = []"
  proof -
    have "\<And>k t. (k, t) \<in> set ?S3 \<Longrightarrow> \<not> (k \<noteq> [] \<and> butlast k = lk)"
    proof
      fix k t assume k: "(k, t) \<in> set ?S3" and b: "k \<noteq> [] \<and> butlast k = lk"
      then have sp: "strict_prefix lk k" using strict_prefix_butlast by blast
      from k consider "(k, t) \<in> set fs0" | "k = qv" | "(k, t) \<in> set rest'" by auto
      then show False
      proof cases
        case 1 then show False using no_lk sp by (auto simp: strict_prefix_def)
      next
        case 2 then show False using b qvp lk00 by simp
      next
        case 3 then show False using rest'_keys sp by blast
      qed
    qed
    then show ?thesis by (auto simp: fs_children_def filter_empty_conv)
  qed
  have rm_S3: "fs_remove ?S3 lk = ?A"
  proof -
    have "filter (\<lambda>(k, t). k \<noteq> lk) fs0 = fs0"
      using no_lk by (auto simp: filter_id_conv)
    moreover have "filter (\<lambda>(k, t). k \<noteq> lk) rest' = []"
      using rest'_keys by (auto simp: filter_empty_conv)
    ultimately show ?thesis using lk_qv by (simp add: fs_remove_def)
  qed
  have l_S3: "fs_lookup ?S3 lk = (case rest' of [] \<Rightarrow> None | (k, t) # r \<Rightarrow> Some t)"
  proof (cases rest')
    case Nil
    then show ?thesis using m_lk lk_qv lkne by (simp add: fs_lookup_def map_add_def)
  next
    case (Cons a r)
    obtain k t where a: "a = (k, t)" by (cases a)
    have "k = lk" using rest'_keys [of k t] Cons a by simp
    then show ?thesis using Cons a m_lk lkne by (simp add: fs_lookup_def map_add_def)
  qed
  have old: "remove_old_symlink linkloc (w\<lparr>disk := ?F ?S3\<rparr>) = Inr ((), w\<lparr>disk := ?F ?A\<rparr>)"
  proof (cases rest')
    case Nil
    then have "fs_lookup ?S3 lk = None" using l_S3 by simp
    then have "sys_lstat (?F ?S3) linkloc = Inl ENOENT" "sys_unlink (?F ?S3) linkloc = Inl ENOENT"
      using np_S3 by (simp_all add: sys_lstat_def sys_unlink_def)
    then show ?thesis using Nil by (simp add: remove_old_symlink_def)
  next
    case (Cons a r)
    obtain k t where a: "a = (k, t)" by (cases a)
    have l: "fs_lookup ?S3 lk = Some t" using l_S3 Cons a by simp
    have lstat: "sys_lstat (?F ?S3) linkloc = Inr t"
      using np_S3 l by (simp add: sys_lstat_def)
    show ?thesis
    proof (cases t)
      case S_IFDIR
      then have "sys_rmdir (?F ?S3) linkloc = Inr (?F ?A)"
        using np_S3 l ch_S3 rm_S3 by (simp add: sys_rmdir_def)
      then show ?thesis using lstat S_IFDIR by (simp add: remove_old_symlink_def)
    next
      case S_IFREG
      then have "sys_unlink (?F ?S3) linkloc = Inr (?F ?A)"
        using np_S3 l rm_S3 by (simp add: sys_unlink_def)
      then show ?thesis using lstat S_IFREG by (simp add: remove_old_symlink_def)
    next
      case (S_IFLNK target)
      then have "sys_unlink (?F ?S3) linkloc = Inr (?F ?A)"
        using np_S3 l rm_S3 by (simp add: sys_unlink_def)
      then show ?thesis using lstat S_IFLNK by (simp add: remove_old_symlink_def)
    qed
  qed
  \<comment> \<open>the new link\<close>
  have symlink: "sys_symlink (?F ?A) location linkloc =
                   Inr (?F (fs0 @ [(qv, S_IFDIR), (lk, S_IFLNK location)]))"
    using lk lk0 by (simp add: sys_symlink_def)
  show ?thesis
    unfolding create_tablespace_directories_def Let_def lv [symmetric] ll [symmetric]
    using rec disk chmod stat rmtree mkdir old symlink
    by simp
qed

subsection \<open>C1: DROP TABLESPACE on a tablespace that is not empty\<close>

text \<open>
  C1. Take a DropTableSpace in normal operation that passes its checks and whose first
  call of destroy_tablespace_directories (redo false) returns false. Then exactly one
  checkpoint is requested (immediate, forced, waited for), right after the calls of the
  catalog removal, and the destruction is tried exactly once more: the outcome of the
  command and the file system it leaves are those of that one retry. If the retry
  returns false again, the command fails with the error that the tablespace is not
  empty, and after the abort of the transaction pg_tablespace is what it was before
  the command: the row is still there.
\<close>

theorem DropTableSpace_not_empty_checkpoint_and_retry:
  assumes found: "scan_spcname (pg_tablespace w) (drop_tablespacename stmt) = Some tuple"
      and owner: "pg_tablespace_ownercheck env (fst tuple) (GetUserId env)"
      and not_global: "fst tuple \<noteq> GLOBALTABLESPACE_OID env"
      and not_default: "fst tuple \<noteq> DEFAULTTABLESPACE_OID env"
      and first: "destroy_tablespace_directories env (fst tuple) False
                    (remove_catalog_entries env tuple w) = Inr (False, w1)"
      and retry: "retry = destroy_tablespace_directories env (fst tuple) False
                    (RequestCheckpoint env {CHECKPOINT_IMMEDIATE, CHECKPOINT_FORCE, CHECKPOINT_WAIT} w1)"
  shows "length (filter is_checkpoint_request (calls (result_world (DropTableSpace env stmt w)))) =
           length (filter is_checkpoint_request (calls w)) + 1 \<and>
         calls (result_world retry) =
           calls (remove_catalog_entries env tuple w) @
             [Call_RequestCheckpoint {CHECKPOINT_IMMEDIATE, CHECKPOINT_FORCE, CHECKPOINT_WAIT}] \<and>
         disk (result_world (DropTableSpace env stmt w)) = disk (result_world retry) \<and>
         (\<forall>w3. retry = Inr (False, w3) \<longrightarrow>
            DropTableSpace env stmt w = Inl (tablespace_is_not_empty (drop_tablespacename stmt), w3) \<and>
            in_transaction (DropTableSpace env stmt) w =
              Inl (tablespace_is_not_empty (drop_tablespacename stmt), w3\<lparr>pg_tablespace := pg_tablespace w\<rparr>)) \<and>
         (\<forall>w3. retry = Inr (True, w3) \<longrightarrow> \<not> isl (DropTableSpace env stmt w)) \<and>
         (\<forall>err. retry = Inl err \<longrightarrow> DropTableSpace env stmt w = Inl err)"
proof -
  let ?w0 = "remove_catalog_entries env tuple w"
  let ?ck = "Call_RequestCheckpoint {CHECKPOINT_IMMEDIATE, CHECKPOINT_FORCE, CHECKPOINT_WAIT}"
  let ?w2 = "RequestCheckpoint env {CHECKPOINT_IMMEDIATE, CHECKPOINT_FORCE, CHECKPOINT_WAIT} w1"
  have c1: "calls w1 = calls ?w0"
    using destroy_tablespace_directories_Inr [OF first] by simp
  have c2: "calls ?w2 = calls ?w0 @ [?ck]"
    using c1 by (simp add: RequestCheckpoint_def)
  have cr: "calls (result_world retry) = calls ?w0 @ [?ck]"
    using destroy_tablespace_directories_calls [of env "fst tuple" False ?w2] c2 retry by simp
  have n0: "filter is_checkpoint_request (calls ?w0) = filter is_checkpoint_request (calls w)"
    by (rule remove_catalog_entries_no_checkpoint)
  have phys: "remove_physical_infrastructure env (drop_tablespacename stmt) (fst tuple) ?w0 =
      (case retry of
         Inl err \<Rightarrow> Inl err
       | Inr (True, w3) \<Rightarrow> Inr ((), w3)
       | Inr (False, w3) \<Rightarrow> Inl (tablespace_is_not_empty (drop_tablespacename stmt), w3))"
    using first retry by (simp add: remove_physical_infrastructure_def Let_def)
  have drop: "DropTableSpace env stmt w =
      (case remove_physical_infrastructure env (drop_tablespacename stmt) (fst tuple) ?w0 of
         Inl err \<Rightarrow> Inl err
       | Inr (u, w1) \<Rightarrow>
           let w2 = called (Call_XLogInsert (XLOG_TBLSPC_DROP (fst tuple))) w1;
               w3 = called Call_ForceSyncCommit w2;
               w4 = called Call_LWLockRelease_TablespaceCreateLock w3
           in Inr ((), if Gp_role env = GP_ROLE_DISPATCH
                       then called (Call_CdbDispatchUtilityStatement (T_DropTableSpaceStmt stmt)
                                      {DF_CANCEL_ON_ERROR, DF_WITH_SNAPSHOT, DF_NEED_TWO_PHASE} NIL) w4
                       else w4))"
    using found owner not_global not_default by (simp add: DropTableSpace_def Let_def)
  show ?thesis
  proof (cases retry)
    case (Inl err)
    obtain e w3 where err: "err = (e, w3)" by (cases err)
    have "DropTableSpace env stmt w = Inl (e, w3)" using drop phys Inl err by simp
    then show ?thesis using Inl err cr n0 by (simp add: is_checkpoint_request_def)
  next
    case (Inr b)
    obtain ok w3 where b: "b = (ok, w3)" by (cases b)
    show ?thesis
    proof (cases ok)
      case False
      have "DropTableSpace env stmt w = Inl (tablespace_is_not_empty (drop_tablespacename stmt), w3)"
        using drop phys Inr b False by simp
      then show ?thesis using Inr b False cr n0
        by (simp add: is_checkpoint_request_def in_transaction_def AbortTransaction_def)
    next
      case True
      then show ?thesis using drop phys Inr b cr n0
        by (simp add: Let_def is_checkpoint_request_def)
    qed
  qed
qed

theorem DropTableSpace_not_empty_checkpoint_and_retry_witness:
  "scan_spcname (pg_tablespace example_world_in_use) (drop_tablespacename example_drop_ts1) =
     Some (16386, \<lparr>spcname = ''ts1'', spcowner = 10, spcoptions = None\<rparr>) \<and>
   pg_tablespace_ownercheck example_env 16386 (GetUserId example_env) \<and>
   16386 \<noteq> GLOBALTABLESPACE_OID example_env \<and>
   16386 \<noteq> DEFAULTTABLESPACE_OID example_env \<and>
   fst (projr (destroy_tablespace_directories example_env 16386 False
                 (remove_catalog_entries example_env
                    (16386, \<lparr>spcname = ''ts1'', spcowner = 10, spcoptions = None\<rparr>)
                    example_world_in_use))) = False \<and>
   fst (projl (in_transaction (DropTableSpace example_env example_drop_ts1) example_world_in_use)) =
     tablespace_is_not_empty ''ts1'' \<and>
   pg_tablespace (result_world (in_transaction (DropTableSpace example_env example_drop_ts1)
                                  example_world_in_use)) =
     pg_tablespace example_world_in_use \<and>
   length (filter is_checkpoint_request
             (calls (result_world (DropTableSpace example_env example_drop_ts1 example_world_in_use)))) = 1"
proof -
  let ?tuple = "(16386 :: Oid, \<lparr>spcname = ''ts1'', spcowner = 10 :: Oid, spcoptions = None\<rparr>)"
  let ?w0 = "remove_catalog_entries example_env ?tuple example_world_in_use"
  let ?w1 = "result_world (destroy_tablespace_directories example_env 16386 False ?w0)"
  let ?retry = "destroy_tablespace_directories example_env 16386 False
                    (RequestCheckpoint example_env {CHECKPOINT_IMMEDIATE, CHECKPOINT_FORCE, CHECKPOINT_WAIT} ?w1)"
  have found: "scan_spcname (pg_tablespace example_world_in_use) (drop_tablespacename example_drop_ts1) =
     Some ?tuple"
    by (simp add: scan_spcname_def example_eval)
  have owner: "pg_tablespace_ownercheck example_env (fst ?tuple) (GetUserId example_env)"
    by (simp add: example_env_def)
  have g: "fst ?tuple \<noteq> GLOBALTABLESPACE_OID example_env" by (simp add: example_env_def)
  have d: "fst ?tuple \<noteq> DEFAULTTABLESPACE_OID example_env" by (simp add: example_env_def)
  have first: "destroy_tablespace_directories example_env (fst ?tuple) False ?w0 = Inr (False, ?w1)"
    by (simp add: command_eval fs_eval example_eval)
  have second: "?retry = Inr (False, result_world ?retry)"
    by (simp add: command_eval fs_eval example_eval)
  have c0: "calls example_world_in_use = []" by (simp add: example_eval)
  note th = DropTableSpace_not_empty_checkpoint_and_retry [OF found owner g d first refl]
  have n: "length (filter is_checkpoint_request
             (calls (result_world (DropTableSpace example_env example_drop_ts1 example_world_in_use)))) =
           length (filter is_checkpoint_request (calls example_world_in_use)) + 1"
    by (rule th [THEN conjunct1])
  have t: "in_transaction (DropTableSpace example_env example_drop_ts1) example_world_in_use =
              Inl (tablespace_is_not_empty (drop_tablespacename example_drop_ts1),
                   (result_world ?retry)\<lparr>pg_tablespace := pg_tablespace example_world_in_use\<rparr>)"
    using th [THEN conjunct2, THEN conjunct2, THEN conjunct2, THEN conjunct1, rule_format,
              of "result_world ?retry"] second
    by (simp only: fst_conv simp_thms)
  have f: "fst (projr (destroy_tablespace_directories example_env 16386 False ?w0)) = False"
    by (simp add: command_eval fs_eval example_eval)
  show ?thesis using found owner g d f n t c0
    by (simp add: example_drop_ts1_def)
qed

subsection \<open>C2: the two reserved tablespaces\<close>

text \<open>
  C2, as the code has it. When the name resolves to the global or to the default
  tablespace, DropTableSpace always fails with a privilege error, whoever asks (the
  superuser passes the owner check and is then refused). RenameTableSpace has no such
  guard: it fails exactly when the caller is not the owner, when the new name is
  reserved and allowSystemTableMods is off, or when the new name is taken; otherwise
  the row of the reserved tablespace is renamed.
\<close>

theorem reserved_tablespaces_drop_and_rename:
  assumes found: "scan_spcname (pg_tablespace w) name = Some (oid, form)"
      and reserved: "oid = GLOBALTABLESPACE_OID env \<or> oid = DEFAULTTABLESPACE_OID env"
  shows "(\<exists>msg. DropTableSpace env \<lparr>drop_tablespacename = name, drop_missing_ok = missing_ok\<rparr> w
                   = Inl ((ERROR, ERRCODE_INSUFFICIENT_PRIVILEGE, msg), w)) \<and>
         (isl (RenameTableSpace env name newname w) \<longleftrightarrow>
            (\<not> pg_tablespace_ownercheck env oid (GetUserId env) \<or>
             (\<not> allowSystemTableMods env \<and> IsReservedName env newname) \<or>
             scan_spcname (pg_tablespace w) newname \<noteq> None)) \<and>
         (\<forall>w'. RenameTableSpace env name newname w = Inr (oid, w') \<longrightarrow>
            pg_tablespace w' =
              simple_heap_update (pg_tablespace w) (oid, form) (oid, form\<lparr>spcname := newname\<rparr>)) \<and>
         (\<forall>r w'. RenameTableSpace env name newname w = Inr (r, w') \<longrightarrow> r = oid)"
  using found reserved
  by (auto simp: DropTableSpace_def RenameTableSpace_def Let_def aclcheck_error_def
        split: option.splits)

theorem reserved_tablespaces_drop_and_rename_witness:
  "scan_spcname (pg_tablespace example_world) ''pg_global'' =
     Some (1664, \<lparr>spcname = ''pg_global'', spcowner = 10, spcoptions = None\<rparr>) \<and>
   1664 = GLOBALTABLESPACE_OID example_env \<and>
   superuser example_env \<and>
   fst (fst (projl (DropTableSpace example_env
                      \<lparr>drop_tablespacename = ''pg_global'', drop_missing_ok = False\<rparr> example_world)))
     = ERROR \<and>
   fst (snd (fst (projl (DropTableSpace example_env
                      \<lparr>drop_tablespacename = ''pg_global'', drop_missing_ok = False\<rparr> example_world))))
     = ERRCODE_INSUFFICIENT_PRIVILEGE \<and>
   snd (projl (DropTableSpace example_env
                      \<lparr>drop_tablespacename = ''pg_global'', drop_missing_ok = False\<rparr> example_world))
     = example_world"
proof -
  have s: "scan_spcname (pg_tablespace example_world) ''pg_global'' =
     Some (1664, \<lparr>spcname = ''pg_global'', spcowner = 10, spcoptions = None\<rparr>)"
    by (simp add: scan_spcname_def example_world_def)
  have g: "(1664 :: Oid) = GLOBALTABLESPACE_OID example_env \<or> (1664 :: Oid) = DEFAULTTABLESPACE_OID example_env"
    by (simp add: example_env_def)
  from reserved_tablespaces_drop_and_rename [OF s g, of False]
  obtain msg where "DropTableSpace example_env
       \<lparr>drop_tablespacename = ''pg_global'', drop_missing_ok = False\<rparr> example_world
       = Inl ((ERROR, ERRCODE_INSUFFICIENT_PRIVILEGE, msg), example_world)"
    by blast
  then show ?thesis using s by (simp add: example_env_def)
qed

text \<open>
  The claim as stated fails: the owner renames pg_default, the row with the reserved
  OID of the default tablespace, and no error is raised.
\<close>

theorem RenameTableSpace_renames_pg_default:
  "scan_spcname (pg_tablespace example_world) ''pg_default'' =
     Some (DEFAULTTABLESPACE_OID example_env,
           \<lparr>spcname = ''pg_default'', spcowner = 10, spcoptions = None\<rparr>) \<and>
   RenameTableSpace example_env ''pg_default'' ''main'' example_world =
     Inr (1663,
          example_world
            \<lparr>pg_tablespace :=
               [(1663, \<lparr>spcname = ''main'', spcowner = 10, spcoptions = None\<rparr>),
                (1664, \<lparr>spcname = ''pg_global'', spcowner = 10, spcoptions = None\<rparr>)],
             calls := [Call_MetaTrackUpdObject 1663, Call_InvokeObjectPostAlterHook 1663]\<rparr>)"
  by (simp add: RenameTableSpace_def scan_spcname_def example_world_def example_env_def called_def)

subsection \<open>C3: dispatch to the segments\<close>

text \<open>
  C3, as the code has it. On the coordinator, a DropTableSpace that found its
  tablespace and succeeded ends with the dispatch of the same statement, and a
  CreateTableSpace that succeeded ends with the dispatch of the same statement followed
  by the metadata tracking call. Both dispatches carry the same three flags:
  cancel on error, with snapshot, and need two phase.
\<close>

theorem drop_and_create_dispatch_with_two_phase:
  assumes "Gp_role env = GP_ROLE_DISPATCH"
  shows "(\<forall>w'. DropTableSpace env dropstmt w = Inr ((), w') \<and>
               scan_spcname (pg_tablespace w) (drop_tablespacename dropstmt) \<noteq> None \<longrightarrow>
            last (calls w') = Call_CdbDispatchUtilityStatement (T_DropTableSpaceStmt dropstmt)
                                {DF_CANCEL_ON_ERROR, DF_WITH_SNAPSHOT, DF_NEED_TWO_PHASE} NIL) \<and>
         (\<forall>oid w'. CreateTableSpace env createstmt w = Inr (oid, w') \<longrightarrow>
            calls w' = butlast (butlast (calls w')) @
              [Call_CdbDispatchUtilityStatement (T_CreateTableSpaceStmt createstmt)
                 {DF_CANCEL_ON_ERROR, DF_WITH_SNAPSHOT, DF_NEED_TWO_PHASE} AssignedOidsForDispatch,
               Call_MetaTrackAddObject oid])"
  using assms DropTableSpace_dispatches CreateTableSpace_dispatches by blast

theorem drop_and_create_dispatch_with_two_phase_witness:
  "Gp_role example_env = GP_ROLE_DISPATCH \<and>
   scan_spcname (pg_tablespace example_world_ts1) (drop_tablespacename example_drop_ts1) \<noteq> None \<and>
   \<not> isl (DropTableSpace example_env example_drop_ts1 example_world_ts1) \<and>
   last (calls (result_world (DropTableSpace example_env example_drop_ts1 example_world_ts1))) =
     Call_CdbDispatchUtilityStatement (T_DropTableSpaceStmt example_drop_ts1)
       {DF_CANCEL_ON_ERROR, DF_WITH_SNAPSHOT, DF_NEED_TWO_PHASE} NIL \<and>
   \<not> isl (CreateTableSpace example_env example_create_ts1 example_world) \<and>
   last (butlast (calls (result_world (CreateTableSpace example_env example_create_ts1 example_world)))) =
     Call_CdbDispatchUtilityStatement (T_CreateTableSpaceStmt example_create_ts1)
       {DF_CANCEL_ON_ERROR, DF_WITH_SNAPSHOT, DF_NEED_TWO_PHASE} AssignedOidsForDispatch"
proof -
  have role: "Gp_role example_env = GP_ROLE_DISPATCH" by (simp add: example_env_def)
  have found: "scan_spcname (pg_tablespace example_world_ts1) (drop_tablespacename example_drop_ts1) \<noteq> None"
    by (simp add: scan_spcname_def example_eval)
  obtain w1 where d: "DropTableSpace example_env example_drop_ts1 example_world_ts1 = Inr ((), w1)"
    using example_drop_ts1_run by blast
  obtain w2 where c: "CreateTableSpace example_env example_create_ts1 example_world = Inr (16386, w2)"
    using example_create_ts1_run by blast
  from drop_and_create_dispatch_with_two_phase [OF role, of example_drop_ts1 example_world_ts1]
       drop_and_create_dispatch_with_two_phase [OF role, of _ example_world example_create_ts1]
       d c found
  have l1: "last (calls w1) = Call_CdbDispatchUtilityStatement (T_DropTableSpaceStmt example_drop_ts1)
                                {DF_CANCEL_ON_ERROR, DF_WITH_SNAPSHOT, DF_NEED_TWO_PHASE} NIL"
    and l2: "calls w2 = butlast (butlast (calls w2)) @
              [Call_CdbDispatchUtilityStatement (T_CreateTableSpaceStmt example_create_ts1)
                 {DF_CANCEL_ON_ERROR, DF_WITH_SNAPSHOT, DF_NEED_TWO_PHASE} AssignedOidsForDispatch,
               Call_MetaTrackAddObject 16386]"
    by blast+
  have "last (butlast (calls w2)) =
          Call_CdbDispatchUtilityStatement (T_CreateTableSpaceStmt example_create_ts1)
            {DF_CANCEL_ON_ERROR, DF_WITH_SNAPSHOT, DF_NEED_TWO_PHASE} AssignedOidsForDispatch"
    by (subst l2) (simp add: butlast_append)
  with role found d c l1 show ?thesis by simp
qed

text \<open>
  The claim as stated fails: the dispatch of the drop statement asks for two-phase
  commit, as the dispatch of the create statement does.
\<close>

theorem DropTableSpace_dispatch_needs_two_phase:
  "Gp_role example_env = GP_ROLE_DISPATCH \<and>
   \<not> isl (DropTableSpace example_env example_drop_ts1 example_world_ts1) \<and>
   DF_NEED_TWO_PHASE \<in>
     dispatch_flags_of
       (last (calls (result_world (DropTableSpace example_env example_drop_ts1 example_world_ts1))))"
  by (simp add: example_drop_ts1_run dispatch_flags_of_def) (simp add: example_env_def)

subsection \<open>C4: replay of a create record\<close>

text \<open>
  C4. Take any well-formed file system \<open>w0\<close> on which create_tablespace_directories
  succeeds outside recovery, giving \<open>w1\<close>: the single apply on a clean file system.
  Let \<open>w\<close> be \<open>w0\<close> with the version directory under the location already there,
  with any files below it, and with the link that a normal creation left at the link
  location (or a stale link, or nothing). Then the replay of the create record on \<open>w\<close>
  (InRecovery true) does not raise an error, and the world it leaves is exactly \<open>w1\<close>:
  the old version directory and the old link are removed and made anew. With
  \<open>w = w1\<close>, the state after a normal creation, this is the idempotence of redo.
\<close>

theorem create_redo_is_idempotent:
  assumes wf: "fs_wf (files (disk w0))"
      and create: "create_tablespace_directories (env\<lparr>InRecovery := False\<rparr>) location tablespaceoid w0
                     = Inr ((), w1)"
      and vd: "namei_parent (disk w0) (location @ ''/'' @ tablespace_version_directory env)
                 = Inr version_dir"
      and link: "namei_parent (disk w1) (''pg_tblspc/'' @ decimal (unat tablespaceoid)) = Inr link"
      and rest: "list_all (\<lambda>(k, t). strict_prefix version_dir k \<or> k = link) rest"
      and start: "w = w0\<lparr>disk := (disk w0)\<lparr>files := files (disk w0) @ (version_dir, S_IFDIR) # rest\<rparr>\<rparr>"
  shows "tblspc_redo (env\<lparr>InRecovery := True\<rparr>) (XLOG_TBLSPC_CREATE tablespaceoid location) w
           = Inr ((), w1)"
proof -
  let ?lv = "location @ ''/'' @ tablespace_version_directory env"
  let ?ll = "''pg_tblspc/'' @ decimal (unat tablespaceoid)"
  let ?fs0 = "files (disk w0)"
  let ?c = "cwd (disk w0)"
  have d0: "disk w0 = \<lparr>files = ?fs0, cwd = ?c\<rparr>" by simp
  from create_tablespace_directories_normalD [OF _ create, of ?lv ?ll]
  obtain q qv lk where
    q: "namei (disk w0) location = Inr q"
    and qv: "namei_parent (disk w0) ?lv = Inr qv"
    and qv0: "fs_lookup ?fs0 qv = None"
    and lk: "namei_parent ((disk w0)\<lparr>files := ?fs0 @ [(qv, S_IFDIR)]\<rparr>) ?ll = Inr lk"
    and lk0: "fs_lookup (?fs0 @ [(qv, S_IFDIR)]) lk = None"
    and w1: "w1 = w0\<lparr>disk := (disk w0)\<lparr>files := ?fs0 @ [(qv, S_IFDIR), (lk, S_IFLNK location)]\<rparr>\<rparr>"
    by auto
  have v: "version_dir = qv" using vd qv by simp
  have "namei_parent (disk w1) ?ll = Inr lk"
    using namei_parent_mono [OF _ _ lk, of "disk w1"] map_le_append [of "?fs0 @ [(qv, S_IFDIR)]" "[(lk, S_IFLNK location)]"]
    by (simp add: w1)
  then have l: "link = lk" using link by simp
  have fA: "(disk w0)\<lparr>files := ?fs0 @ [(qv, S_IFDIR)]\<rparr> = \<lparr>files = ?fs0 @ [(qv, S_IFDIR)], cwd = ?c\<rparr>"
    by simp
  have run: "create_tablespace_directories (env\<lparr>InRecovery := True\<rparr>) location tablespaceoid w =
           Inr ((), w\<lparr>disk := \<lparr>files = ?fs0 @ [(qv, S_IFDIR), (lk, S_IFLNK location)], cwd = ?c\<rparr>\<rparr>)"
  proof (rule create_tablespace_directories_redo_run [where rest = rest and q = q])
    show "InRecovery (env\<lparr>InRecovery := True\<rparr>)" by simp
    show "?lv = location @ ''/'' @ tablespace_version_directory (env\<lparr>InRecovery := True\<rparr>)" by simp
    show "?ll = ''pg_tblspc/'' @ decimal (unat tablespaceoid)" by simp
    show "fs_wf ?fs0" by (rule wf)
    show "namei \<lparr>files = ?fs0, cwd = ?c\<rparr> location = Inr q" using q by (simp add: d0 [symmetric])
    show "namei_parent \<lparr>files = ?fs0, cwd = ?c\<rparr> ?lv = Inr qv" using qv by (simp add: d0 [symmetric])
    show "fs_lookup ?fs0 qv = None" by (rule qv0)
    show "namei_parent \<lparr>files = ?fs0 @ [(qv, S_IFDIR)], cwd = ?c\<rparr> ?ll = Inr lk"
      using lk by (simp add: fA [symmetric])
    show "fs_lookup (?fs0 @ [(qv, S_IFDIR)]) lk = None" by (rule lk0)
    show "list_all (\<lambda>(k, t). strict_prefix qv k \<or> k = lk) rest" using rest v l by simp
    show "disk w = \<lparr>files = ?fs0 @ (qv, S_IFDIR) # rest, cwd = ?c\<rparr>"
      using start v by (simp add: fsys.equality)
  qed
  have "w\<lparr>disk := \<lparr>files = ?fs0 @ [(qv, S_IFDIR), (lk, S_IFLNK location)], cwd = ?c\<rparr>\<rparr> = w1"
    using w1 start by (simp add: fsys.equality)
  then show ?thesis using run by (simp add: tblspc_redo_def)
qed

theorem create_redo_is_idempotent_witness:
  "fs_wf (files (disk example_world)) \<and>
   create_tablespace_directories (example_env\<lparr>InRecovery := False\<rparr>) ''/data/ts1'' 16386 example_world
     = Inr ((), example_world_after_create) \<and>
   sys_stat example_disk_in_use ''/data/ts1/GPDB_6_db1'' = Inr S_IFDIR \<and>
   tblspc_redo (example_env\<lparr>InRecovery := True\<rparr>) (XLOG_TBLSPC_CREATE 16386 ''/data/ts1'')
     (example_world\<lparr>disk := example_disk_in_use\<rparr>) = Inr ((), example_world_after_create) \<and>
   tblspc_redo (example_env\<lparr>InRecovery := True\<rparr>) (XLOG_TBLSPC_CREATE 16386 ''/data/ts1'')
     example_world_after_create = Inr ((), example_world_after_create)"
proof -
  let ?vd = "[''data'', ''ts1'', ''GPDB_6_db1'']"
  let ?lk = "[''pgdata'', ''pg_tblspc'', ''16386'']"
  let ?rest = "[(?lk, S_IFLNK ''/data/ts1''), (?vd @ [''5''], S_IFDIR), (?vd @ [''5'', ''16390''], S_IFREG)]"
  have wf: "fs_wf (files (disk example_world))"
    by (simp add: fs_wf_def fs_lookup_def example_eval)
  have create: "create_tablespace_directories (example_env\<lparr>InRecovery := False\<rparr>) ''/data/ts1'' 16386
                  example_world = Inr ((), example_world_after_create)"
    by (simp add: command_eval fs_eval example_eval example_world_after_create_def)
  have vd: "namei_parent (disk example_world) (''/data/ts1'' @ ''/'' @ tablespace_version_directory example_env)
              = Inr ?vd"
    by (simp add: fs_eval example_eval)
  have link: "namei_parent (disk example_world_after_create) (''pg_tblspc/'' @ decimal (unat (16386 :: Oid)))
              = Inr ?lk"
    by (simp add: fs_eval example_eval example_world_after_create_def)
  have rest: "list_all (\<lambda>(k, t). strict_prefix ?vd k \<or> k = ?lk) ?rest"
    by (simp add: strict_prefix_def)
  have rest1: "list_all (\<lambda>(k, t). strict_prefix ?vd k \<or> k = ?lk) [(?lk, S_IFLNK ''/data/ts1'')]"
    by simp
  have start: "example_world\<lparr>disk := example_disk_in_use\<rparr> =
      example_world\<lparr>disk := (disk example_world)\<lparr>files := files (disk example_world) @ (?vd, S_IFDIR) # ?rest\<rparr>\<rparr>"
    by (simp add: example_eval)
  have start1: "example_world_after_create =
      example_world\<lparr>disk := (disk example_world)\<lparr>files := files (disk example_world) @
         (?vd, S_IFDIR) # [(?lk, S_IFLNK ''/data/ts1'')]\<rparr>\<rparr>"
    by (simp add: example_eval example_world_after_create_def)
  have st: "sys_stat example_disk_in_use ''/data/ts1/GPDB_6_db1'' = Inr S_IFDIR"
    by (simp add: fs_eval example_eval)
  note a = create_redo_is_idempotent [OF wf create vd link rest start]
  note b = create_redo_is_idempotent [OF wf create vd link rest1 start1]
  show ?thesis using wf create st a b by simp
qed

subsection \<open>C5: replay of a drop record\<close>

text \<open>
  C5. Replay of a drop record calls destroy_tablespace_directories with redo true and
  never ends in ERROR. When that call returns true, nothing more is done and the
  conflict resolver is not called. When it returns false, the resolver is called once
  and the destruction is tried once more; a second false is reported at LOG and replay
  goes on.
\<close>

theorem tblspc_redo_drop_never_fails:
  "(\<exists>w'. tblspc_redo env (XLOG_TBLSPC_DROP ts_id) w = Inr ((), w')) \<and>
   (\<forall>w1. destroy_tablespace_directories env ts_id True w = Inr (True, w1) \<longrightarrow>
      tblspc_redo env (XLOG_TBLSPC_DROP ts_id) w = Inr ((), w1) \<and> calls w1 = calls w) \<and>
   (\<forall>w1. destroy_tablespace_directories env ts_id True w = Inr (False, w1) \<longrightarrow>
      (\<exists>ok w3.
         destroy_tablespace_directories env ts_id True
           (ResolveRecoveryConflictWithTablespace env ts_id w1) = Inr (ok, w3) \<and>
         calls w3 = calls w @ [Call_ResolveRecoveryConflictWithTablespace ts_id] \<and>
         tblspc_redo env (XLOG_TBLSPC_DROP ts_id) w =
           Inr ((), if ok then w3
                    else ereport LOG ERRCODE_OBJECT_NOT_IN_PREREQUISITE_STATE
                           (''directories for tablespace '' @ decimal (unat ts_id)
                              @ '' could not be removed'') w3)))"
proof (intro conjI allI impI)
  show "\<exists>w'. tblspc_redo env (XLOG_TBLSPC_DROP ts_id) w = Inr ((), w')"
    by (auto simp: tblspc_redo_def Let_def destroy_tablespace_directories_redo
          split: sum.splits bool.splits prod.splits)
next
  fix w1 assume d: "destroy_tablespace_directories env ts_id True w = Inr (True, w1)"
  then show "tblspc_redo env (XLOG_TBLSPC_DROP ts_id) w = Inr ((), w1)"
    by (simp add: tblspc_redo_def)
  show "calls w1 = calls w" using destroy_tablespace_directories_Inr [OF d] by simp
next
  fix w1 assume d: "destroy_tablespace_directories env ts_id True w = Inr (False, w1)"
  let ?w2 = "ResolveRecoveryConflictWithTablespace env ts_id w1"
  obtain ok w3 where d2: "destroy_tablespace_directories env ts_id True ?w2 = Inr (ok, w3)"
    using destroy_tablespace_directories_redo [of env ts_id ?w2]
    by (cases "destroy_tablespace_directories env ts_id True ?w2") auto
  have c: "calls w3 = calls w @ [Call_ResolveRecoveryConflictWithTablespace ts_id]"
    using destroy_tablespace_directories_Inr [OF d] destroy_tablespace_directories_Inr [OF d2]
    by (simp add: ResolveRecoveryConflictWithTablespace_def)
  have "tblspc_redo env (XLOG_TBLSPC_DROP ts_id) w =
           Inr ((), if ok then w3
                    else ereport LOG ERRCODE_OBJECT_NOT_IN_PREREQUISITE_STATE
                           (''directories for tablespace '' @ decimal (unat ts_id)
                              @ '' could not be removed'') w3)"
    using d d2 by (simp add: tblspc_redo_def Let_def)
  with d2 c show "\<exists>ok w3.
         destroy_tablespace_directories env ts_id True
           (ResolveRecoveryConflictWithTablespace env ts_id w1) = Inr (ok, w3) \<and>
         calls w3 = calls w @ [Call_ResolveRecoveryConflictWithTablespace ts_id] \<and>
         tblspc_redo env (XLOG_TBLSPC_DROP ts_id) w =
           Inr ((), if ok then w3
                    else ereport LOG ERRCODE_OBJECT_NOT_IN_PREREQUISITE_STATE
                           (''directories for tablespace '' @ decimal (unat ts_id)
                              @ '' could not be removed'') w3)"
    by blast
qed

theorem tblspc_redo_drop_never_fails_witness:
  "destroy_tablespace_directories example_env 16386 True example_world_in_use =
     Inr (False, result_world (destroy_tablespace_directories example_env 16386 True example_world_in_use)) \<and>
   \<not> isl (tblspc_redo example_env (XLOG_TBLSPC_DROP 16386) example_world_in_use) \<and>
   calls (result_world (tblspc_redo example_env (XLOG_TBLSPC_DROP 16386) example_world_in_use)) =
     [Call_ResolveRecoveryConflictWithTablespace 16386]"
proof -
  have first: "destroy_tablespace_directories example_env 16386 True example_world_in_use =
     Inr (False, result_world (destroy_tablespace_directories example_env 16386 True example_world_in_use))"
    by (simp add: fs_eval example_eval destroy_tablespace_directories_def remove_symlink_def ereport_def)
  have c: "calls example_world_in_use = []"
    by (simp add: example_world_in_use_def example_world_ts1_def)
  from tblspc_redo_drop_never_fails [of example_env 16386 example_world_in_use] first
  obtain ok w3 where
    c3: "calls w3 = calls example_world_in_use @ [Call_ResolveRecoveryConflictWithTablespace 16386]"
    and r: "tblspc_redo example_env (XLOG_TBLSPC_DROP 16386) example_world_in_use =
           Inr ((), if ok then w3
                    else ereport LOG ERRCODE_OBJECT_NOT_IN_PREREQUISITE_STATE
                           (''directories for tablespace '' @ decimal (unat (16386 :: Oid))
                              @ '' could not be removed'') w3)"
    by blast
  show ?thesis using first c c3 r by (cases ok) simp_all
qed

subsection \<open>C6: CREATE TABLESPACE with a bad location or a reserved name\<close>

text \<open>
  C6, as the code has it. Let \<open>location\<close> be the location CreateTableSpace works
  with: the one of this segment's option when the statement carries one, the one of the
  statement otherwise, after canonicalize_path. If it holds a single quote, or is not
  absolute, or if the name of the tablespace is reserved and allowSystemTableMods is
  off, the command fails and the world in the error is the world it started from: no
  row was inserted, nothing was done. The error is that of the first check that fails,
  in the order of the source: insufficient privilege when the caller is not a
  superuser, undefined object when the owner named does not exist, then invalid name
  for the quote, invalid object definition for the relative path (or for a path too
  long, when only the name is at fault), reserved name otherwise.
\<close>

theorem CreateTableSpace_rejects_bad_location_or_name:
  assumes segment: "segment_location env (create_options stmt) = Inr segment"
      and location: "location = canonicalize_path env
                        (case segment of Some path \<Rightarrow> path | None \<Rightarrow> create_location stmt)"
      and bad: "CHR 0x27 \<in> set location \<or> \<not> is_absolute_path location \<or>
                (\<not> allowSystemTableMods env \<and> IsReservedName env (create_tablespacename stmt))"
  shows "CreateTableSpace env stmt w =
           Inl (if \<not> superuser env
                then (ERROR, ERRCODE_INSUFFICIENT_PRIVILEGE,
                      ''permission denied to create tablespace '' @ quoted (create_tablespacename stmt))
                else if create_owner stmt \<noteq> None \<and> get_role_oid env (the (create_owner stmt)) = None
                then (ERROR, ERRCODE_UNDEFINED_OBJECT,
                      ''role '' @ quoted (the (create_owner stmt)) @ '' does not exist'')
                else if CHR 0x27 \<in> set location then location_cannot_contain_quotes
                else if \<not> is_absolute_path location then location_must_be_absolute
                else if length location + 1 + length (tablespace_version_directory env) + 1 +
                          OIDCHARS env + 1 + OIDCHARS env + 1 + FORKNAMECHARS env + 1 + OIDCHARS env
                        > MAXPGPATH env
                then location_too_long location
                else unacceptable_tablespace_name (create_tablespacename stmt), w)"
proof (cases "superuser env")
  case False
  then show ?thesis by (simp add: CreateTableSpace_def)
next
  case su: True
  show ?thesis
  proof (cases "create_owner stmt")
    case None
    show ?thesis
      using bad
      by (elim disjE) (simp_all add: CreateTableSpace_def Let_def su None segment location [symmetric])
  next
    case (Some rolename)
    show ?thesis
    proof (cases "get_role_oid env rolename")
      case None
      then show ?thesis using su Some by (simp add: CreateTableSpace_def)
    next
      case role: (Some roleid)
      show ?thesis
        using bad
        by (elim disjE)
           (simp_all add: CreateTableSpace_def Let_def su Some role segment location [symmetric])
    qed
  qed
qed

theorem CreateTableSpace_rejects_bad_location_or_name_witness:
  "segment_location example_env (create_options example_create_relative) = Inr None \<and>
   \<not> is_absolute_path (canonicalize_path example_env (create_location example_create_relative)) \<and>
   superuser example_env \<and>
   create_owner example_create_relative = None \<and>
   CreateTableSpace example_env example_create_relative example_world =
     Inl (location_must_be_absolute, example_world)"
proof -
  have s: "segment_location example_env (create_options example_create_relative) = Inr None"
    by (simp add: example_create_relative_def)
  have l: "canonicalize_path example_env (create_location example_create_relative) =
           canonicalize_path example_env
             (case None of Some path \<Rightarrow> path | None \<Rightarrow> create_location example_create_relative)"
    by simp
  have r: "\<not> is_absolute_path (canonicalize_path example_env (create_location example_create_relative))"
    by (simp add: example_create_relative_def example_env_def is_absolute_path_def)
  have q: "CHR 0x27 \<notin> set (canonicalize_path example_env (create_location example_create_relative))"
    by (simp add: example_create_relative_def example_env_def)
  have su: "superuser example_env" by (simp add: example_env_def)
  have ow: "create_owner example_create_relative = None" by (simp add: example_create_relative_def)
  from CreateTableSpace_rejects_bad_location_or_name [OF s l, of example_world] r q su ow
  show ?thesis using s by simp
qed

text \<open>
  The claim as stated, for every call whose location is relative, fails twice. On a
  segment, a statement with a relative location and an absolute location in the option
  of that segment is carried out: the option replaces the location of the statement
  before any check, and the row is inserted. And a caller who is not a superuser is
  turned away with insufficient privilege, not with the error of the path.
\<close>

theorem CreateTableSpace_relative_location_overridden:
  "\<not> is_absolute_path (create_location example_create_override) \<and>
   CreateTableSpace example_env_segment example_create_override example_world =
     Inr (16386,
          example_world
            \<lparr>disk := example_disk_ts1,
             pg_tablespace := pg_tablespace example_world @
               [(16386, \<lparr>spcname = ''ts1'', spcowner = 10,
                         spcoptions = Some [''content0=/data/ts1'']\<rparr>)],
             calls := [Call_recordDependencyOnOwner 16386 10, Call_InvokeObjectPostCreateHook 16386,
                       Call_XLogInsert (XLOG_TBLSPC_CREATE 16386 ''/data/ts1''),
                       Call_ForceSyncCommit]\<rparr>) \<and>
   \<not> is_absolute_path (create_location example_create_relative) \<and>
   CreateTableSpace (example_env\<lparr>superuser := False\<rparr>) example_create_relative example_world =
     Inl ((ERROR, ERRCODE_INSUFFICIENT_PRIVILEGE,
           ''permission denied to create tablespace '' @ quoted ''ts2''), example_world)"
  by (simp add: command_eval fs_eval example_eval example_env_segment_def
        example_create_override_def example_create_relative_def)

subsection \<open>C7: a location already in use\<close>

text \<open>
  C7. Outside recovery, for every tablespace OID and every location (a path that is not
  empty; the name of the version directory is one file name): when the version
  directory under the location exists, create_tablespace_directories fails with the
  error that the object is in use, and the world in the error is the world it started
  from. So a second tablespace cannot be created in the same place.
\<close>

theorem create_tablespace_directories_in_use:
  assumes normal: "\<not> InRecovery env"
      and name: "valid_name (tablespace_version_directory env)"
      and location: "location \<noteq> []"
      and exists: "sys_stat (disk w) (location @ ''/'' @ tablespace_version_directory env) = Inr S_IFDIR"
  shows "create_tablespace_directories env location tablespaceoid w =
           Inl ((ERROR, ERRCODE_OBJECT_IN_USE,
                 ''directory '' @ quoted (location @ ''/'' @ tablespace_version_directory env)
                   @ '' already in use as a tablespace''), w)"
proof -
  let ?v = "tablespace_version_directory env"
  let ?lv = "location @ ''/'' @ ?v"
  let ?f = "disk w"
  have v: "?v \<noteq> ''..''" using name by (simp add: valid_name_def)
  have pc: "path_components ?lv = path_components location @ [?v]"
    using path_components_append [OF name] by simp
  have wf: "walk_from ?f ?lv = walk_from ?f location"
    using walk_from_append [OF location] by simp
  from exists obtain p where "walk MAXSYMLINKS (files ?f) (walk_from ?f ?lv) (path_components ?lv) = Inr p"
    by (auto simp: sys_stat_def namei_def split: sum.splits if_splits option.splits)
  then obtain q where q: "walk MAXSYMLINKS (files ?f) (walk_from ?f location) (path_components location) = Inr q"
    and d: "fs_lookup (files ?f) q = Some S_IFDIR"
    and e: "fs_lookup (files ?f) (q @ [?v]) \<noteq> None"
    using walk_snoc_success [OF v, of MAXSYMLINKS "files ?f" "walk_from ?f location" "path_components location" p]
      pc wf by auto
  have chmod: "sys_chmod ?f location = Inr ?f"
    using q d location by (simp add: sys_chmod_def namei_def)
  have mkdir: "sys_mkdir ?f ?lv = Inl EEXIST"
    using q d e pc wf v
    by (auto simp: sys_mkdir_def namei_parent_def Let_def split: option.splits)
  show ?thesis
    using chmod mkdir normal
    by (simp add: create_tablespace_directories_def Let_def)
qed

theorem create_tablespace_directories_in_use_witness:
  "\<not> InRecovery example_env \<and> valid_name (tablespace_version_directory example_env) \<and>
   ''/data/ts1'' \<noteq> [] \<and>
   sys_stat (disk example_world_ts1) (''/data/ts1'' @ ''/'' @ tablespace_version_directory example_env)
     = Inr S_IFDIR \<and>
   fst (snd (fst (projl (create_tablespace_directories example_env ''/data/ts1'' 16387 example_world_ts1))))
     = ERRCODE_OBJECT_IN_USE \<and>
   snd (projl (create_tablespace_directories example_env ''/data/ts1'' 16387 example_world_ts1))
     = example_world_ts1"
proof -
  have n: "\<not> InRecovery example_env" by (simp add: example_env_def)
  have v: "valid_name (tablespace_version_directory example_env)"
    by (simp add: example_env_def valid_name_def)
  have l: "''/data/ts1'' \<noteq> []" by simp
  note e = example_ts1_exists
  show ?thesis
    using create_tablespace_directories_in_use [OF n v l e, of 16387] n v e by simp
qed

subsection \<open>C8: PrepareTempTablespaces\<close>

text \<open>
  C8, as the code has it. PrepareTempTablespaces does nothing when the list is already
  set in this transaction, and nothing either when no transaction is running. Otherwise,
  when temp_tablespaces does not split into names, the list is set to the empty one;
  when it splits into a list of names (and every row lock is granted), the list
  it sets holds, in order, the sentinel for every empty name and every name of the
  database's own tablespace, and the OID of every other name that resolves to a
  tablespace the user may create in; every other name is skipped silently: nothing is
  reported, neither notice nor error.
\<close>

theorem PrepareTempTablespaces_resolves_the_list:
  "(TempTablespacesAreSet w \<longrightarrow> PrepareTempTablespaces env w = Inr ((), w)) \<and>
   (\<not> TempTablespacesAreSet w \<and> \<not> IsTransactionState env \<longrightarrow>
      PrepareTempTablespaces env w = Inr ((), w)) \<and>
   (\<not> TempTablespacesAreSet w \<and> IsTransactionState env \<and>
    SplitIdentifierString env (temp_tablespaces env) = None \<longrightarrow>
      PrepareTempTablespaces env w = Inr ((), SetTempTablespaces env [] w)) \<and>
   (\<forall>namelist.
      \<not> TempTablespacesAreSet w \<and> IsTransactionState env \<and>
      SplitIdentifierString env (temp_tablespaces env) = Some namelist \<and>
      (\<forall>oid. heap_lock_tuple env oid = HeapTupleMayBeUpdated) \<longrightarrow>
      (\<exists>w'. PrepareTempTablespaces env w = Inr ((), w') \<and>
            tempTableSpaces w' =
              Some (List.map_filter (temp_tablespace_entry env (pg_tablespace w)) namelist) \<and>
            elog w' = elog w \<and> pg_tablespace w' = pg_tablespace w \<and> disk w' = disk w))"
proof (intro conjI allI impI)
  show "TempTablespacesAreSet w \<Longrightarrow> PrepareTempTablespaces env w = Inr ((), w)"
    by (simp add: PrepareTempTablespaces_def)
next
  show "\<not> TempTablespacesAreSet w \<and> \<not> IsTransactionState env \<Longrightarrow>
        PrepareTempTablespaces env w = Inr ((), w)"
    by (simp add: PrepareTempTablespaces_def)
next
  show "\<not> TempTablespacesAreSet w \<and> IsTransactionState env \<and>
        SplitIdentifierString env (temp_tablespaces env) = None \<Longrightarrow>
        PrepareTempTablespaces env w = Inr ((), SetTempTablespaces env [] w)"
    by (simp add: PrepareTempTablespaces_def)
next
  fix namelist
  assume a: "\<not> TempTablespacesAreSet w \<and> IsTransactionState env \<and>
      SplitIdentifierString env (temp_tablespaces env) = Some namelist \<and>
      (\<forall>oid. heap_lock_tuple env oid = HeapTupleMayBeUpdated)"
  then obtain w1 where l: "temp_tablespaces_loop env namelist [] w =
                 Inr ([] @ List.map_filter (temp_tablespace_entry env (pg_tablespace w)) namelist, w1)"
      and f: "pg_tablespace w1 = pg_tablespace w" "elog w1 = elog w" "disk w1 = disk w"
    using temp_tablespaces_loop_spec [of env namelist "[]" w] by blast
  show "\<exists>w'. PrepareTempTablespaces env w = Inr ((), w') \<and>
            tempTableSpaces w' =
              Some (List.map_filter (temp_tablespace_entry env (pg_tablespace w)) namelist) \<and>
            elog w' = elog w \<and> pg_tablespace w' = pg_tablespace w \<and> disk w' = disk w"
    using a l f by (simp add: PrepareTempTablespaces_def SetTempTablespaces_def)
qed

theorem PrepareTempTablespaces_resolves_the_list_witness:
  "\<not> TempTablespacesAreSet example_world_ts1 \<and> IsTransactionState example_env_temp \<and>
   SplitIdentifierString example_env_temp (temp_tablespaces example_env_temp) =
     Some [''ts1'', [], ''nosuch'', ''pg_default''] \<and>
   heap_lock_tuple example_env_temp = (\<lambda>oid. HeapTupleMayBeUpdated) \<and>
   tempTableSpaces (result_world (PrepareTempTablespaces example_env_temp example_world_ts1)) =
     Some [16386, InvalidOid, InvalidOid] \<and>
   elog (result_world (PrepareTempTablespaces example_env_temp example_world_ts1)) = []"
proof -
  have a1: "\<not> TempTablespacesAreSet example_world_ts1"
    by (simp add: TempTablespacesAreSet_def example_eval)
  have a2: "IsTransactionState example_env_temp" by (simp add: example_env_temp_def example_env_def)
  have a3: "SplitIdentifierString example_env_temp (temp_tablespaces example_env_temp) =
     Some [''ts1'', [], ''nosuch'', ''pg_default'']"
    by (simp add: example_env_temp_def example_env_def)
  have a4: "heap_lock_tuple example_env_temp = (\<lambda>oid. HeapTupleMayBeUpdated)"
    by (simp add: example_env_temp_def example_env_def)
  have m: "List.map_filter (temp_tablespace_entry example_env_temp (pg_tablespace example_world_ts1))
             [''ts1'', [], ''nosuch'', ''pg_default''] = [16386, InvalidOid, InvalidOid]"
    by (simp add: List.map_filter_simps temp_tablespace_entry_def scan_spcname_def example_eval
          example_env_temp_def InvalidOid_def)
  have e: "elog example_world_ts1 = []" by (simp add: example_eval)
  from PrepareTempTablespaces_resolves_the_list [of example_world_ts1 example_env_temp] a1 a2 a3 a4
  obtain w' where "PrepareTempTablespaces example_env_temp example_world_ts1 = Inr ((), w')"
    and "tempTableSpaces w' =
              Some (List.map_filter (temp_tablespace_entry example_env_temp (pg_tablespace example_world_ts1))
                      [''ts1'', [], ''nosuch'', ''pg_default''])"
    and "elog w' = elog example_world_ts1"
    by auto
  then show ?thesis using a1 a2 a3 a4 m e by simp
qed

text \<open>
  The claim as stated fails twice: a name that does not resolve is skipped with no
  notice at all, and outside a transaction the variable is not parsed and the list
  stays unset.
\<close>

theorem PrepareTempTablespaces_skips_without_notice:
  "IsTransactionState example_env \<and>
   PrepareTempTablespaces (example_env\<lparr>temp_tablespaces := ''nosuch''\<rparr>) example_world =
     Inr ((), example_world\<lparr>tempTableSpaces := Some []\<rparr>) \<and>
   elog (example_world\<lparr>tempTableSpaces := Some []\<rparr>) = [] \<and>
   \<not> TempTablespacesAreSet example_world \<and>
   \<not> IsTransactionState (example_env\<lparr>IsTransactionState := False, temp_tablespaces := ''pg_global''\<rparr>) \<and>
   PrepareTempTablespaces (example_env\<lparr>IsTransactionState := False, temp_tablespaces := ''pg_global''\<rparr>)
     example_world = Inr ((), example_world) \<and>
   tempTableSpaces example_world = None"
  by (simp add: PrepareTempTablespaces_def TempTablespacesAreSet_def SetTempTablespaces_def
        get_tablespace_oid_def scan_spcname_def OidIsValid_def InvalidOid_def
        example_env_def example_world_def)

subsection \<open>C9: the default tablespace of a relation that is not temporary\<close>

text \<open>
  C9. For a persistence other than temporary, GetDefaultTablespace never raises the
  error of a missing tablespace (SQLSTATE undefined object). When default_tablespace
  names no row of pg_tablespace it returns InvalidOid and leaves the world as it was,
  just as when the variable is unset or empty; and it returns InvalidOid when the
  variable names the tablespace of the database itself.
\<close>

theorem GetDefaultTablespace_never_reports_missing:
  assumes "relpersistence \<noteq> RELPERSISTENCE_TEMP"
  shows "(\<forall>err w'. GetDefaultTablespace env relpersistence w = Inl (err, w') \<longrightarrow>
            fst (snd err) \<noteq> ERRCODE_UNDEFINED_OBJECT) \<and>
         (\<forall>name. default_tablespace env = Some name \<and>
                 scan_spcname (pg_tablespace w) name = None \<longrightarrow>
            GetDefaultTablespace env relpersistence w = Inr (InvalidOid, w)) \<and>
         (default_tablespace env = None \<or> default_tablespace env = Some [] \<longrightarrow>
            GetDefaultTablespace env relpersistence w = Inr (InvalidOid, w)) \<and>
         (\<forall>name form. default_tablespace env = Some name \<and>
                 scan_spcname (pg_tablespace w) name = Some (MyDatabaseTableSpace env, form) \<and>
                 heap_lock_tuple env (MyDatabaseTableSpace env) = HeapTupleMayBeUpdated \<longrightarrow>
            (\<exists>w'. GetDefaultTablespace env relpersistence w = Inr (InvalidOid, w')))"
proof (intro conjI allI impI)
  fix err w'
  assume "GetDefaultTablespace env relpersistence w = Inl (err, w')"
  then show "fst (snd err) \<noteq> ERRCODE_UNDEFINED_OBJECT"
    using assms
    by (auto simp: GetDefaultTablespace_def split: option.splits if_splits sum.splits
          dest: get_tablespace_oid_error_code)
next
  fix name
  assume "default_tablespace env = Some name \<and> scan_spcname (pg_tablespace w) name = None"
  then show "GetDefaultTablespace env relpersistence w = Inr (InvalidOid, w)"
    using assms by (simp add: GetDefaultTablespace_def get_tablespace_oid_missing)
next
  assume "default_tablespace env = None \<or> default_tablespace env = Some []"
  then show "GetDefaultTablespace env relpersistence w = Inr (InvalidOid, w)"
    using assms by (auto simp: GetDefaultTablespace_def)
next
  fix name form
  assume "default_tablespace env = Some name \<and>
          scan_spcname (pg_tablespace w) name = Some (MyDatabaseTableSpace env, form) \<and>
          heap_lock_tuple env (MyDatabaseTableSpace env) = HeapTupleMayBeUpdated"
  then show "\<exists>w'. GetDefaultTablespace env relpersistence w = Inr (InvalidOid, w')"
    using assms by (auto simp: GetDefaultTablespace_def get_tablespace_oid_def Let_def)
qed

theorem GetDefaultTablespace_never_reports_missing_witness:
  "CHR ''p'' \<noteq> RELPERSISTENCE_TEMP \<and>
   default_tablespace (example_env\<lparr>default_tablespace := Some ''nosuch''\<rparr>) = Some ''nosuch'' \<and>
   scan_spcname (pg_tablespace example_world) ''nosuch'' = None \<and>
   GetDefaultTablespace (example_env\<lparr>default_tablespace := Some ''nosuch''\<rparr>) (CHR ''p'') example_world
     = Inr (InvalidOid, example_world)"
proof -
  have t: "CHR ''p'' \<noteq> RELPERSISTENCE_TEMP" by (simp add: RELPERSISTENCE_TEMP_def)
  have s: "scan_spcname (pg_tablespace example_world) ''nosuch'' = None"
    by (simp add: scan_spcname_def example_world_def)
  show ?thesis
    using GetDefaultTablespace_never_reports_missing
            [OF t, of "example_env\<lparr>default_tablespace := Some ''nosuch''\<rparr>" example_world] t s
    by simp
qed

subsection \<open>C10: the global tablespace has no per-database directories\<close>

text \<open>
  C10. For every database OID and either value of isRedo, TablespaceCreateDbspace called
  with the OID of the global tablespace returns at once: the result is the world it
  was given, so no directory is made and TablespaceCreateLock is not taken.
\<close>

theorem TablespaceCreateDbspace_global_is_noop:
  "TablespaceCreateDbspace env (GLOBALTABLESPACE_OID env) dbNode isRedo w = Inr ((), w)"
  by (simp add: TablespaceCreateDbspace_def)

theorem TablespaceCreateDbspace_global_is_noop_witness:
  "TablespaceCreateDbspace example_env 1664 5 True example_world = Inr ((), example_world)"
  using TablespaceCreateDbspace_global_is_noop [of example_env 5 True example_world]
  by (simp add: example_env_def)

end
